theory Spec2Isabelle
  imports Complex_Main
begin

section \<open>Service graphs\<close>

text \<open>
  The analysed object is a directed graph of services (a networkx \<open>DiGraph\<close>) whose nodes
  and edges carry attribute dictionaries.  A graph value lists its nodes in insertion
  order; every node carries its attribute dictionary and its successor dictionary (again
  in insertion order), which is the order in which \<open>G.nodes()\<close> and
  \<open>G.edges(data=True)\<close> iterate.  A key that is absent from an attribute dictionary is
  \<open>None\<close> on the HOL side; floats are idealised as reals and Python integers are
  unbounded.
\<close>

datatype zone_value = ZoneNone | ZoneStr string

record node_attrs =
  replicas :: "int option"
  tags :: "string list option"
  criticality :: "string option"
  zone :: "zone_value option"

record edge_attrs =
  weight :: "real option"
  call_rate :: "real option"
  p50_latency :: "real option"
  p95_latency :: "real option"
  error_rate :: "real option"
  cost :: "real option"
  is_shortcut :: "bool option"

record node_entry =
  node_name :: string
  node_data :: node_attrs
  node_succ :: "(string \<times> edge_attrs) list"

type_synonym digraph = "node_entry list"

datatype py_error =
  NetworkXNoPath
  | NetworkXError
  | NetworkXPointlessConcept
  | PowerIterationFailedConvergence
  | ValueError
  | ZeroDivisionError

definition no_node_attrs :: node_attrs where
  "no_node_attrs = \<lparr>replicas = None, tags = None, criticality = None, zone = None\<rparr>"

definition nodes :: "digraph \<Rightarrow> string list" where
  "nodes g = map node_name g"

definition number_of_nodes :: "digraph \<Rightarrow> int" where
  "number_of_nodes g = int (length g)"

definition has_node :: "digraph \<Rightarrow> string \<Rightarrow> bool" where
  "has_node g u = (u \<in> set (nodes g))"

definition succ_of :: "digraph \<Rightarrow> string \<Rightarrow> (string \<times> edge_attrs) list" where
  "succ_of g u =
     (case find (\<lambda>n. node_name n = u) g of None \<Rightarrow> [] | Some n \<Rightarrow> node_succ n)"

definition attrs_of :: "digraph \<Rightarrow> string \<Rightarrow> node_attrs" where
  "attrs_of g u =
     (case find (\<lambda>n. node_name n = u) g of None \<Rightarrow> no_node_attrs | Some n \<Rightarrow> node_data n)"

definition has_edge :: "digraph \<Rightarrow> string \<Rightarrow> string \<Rightarrow> bool" where
  "has_edge g u v = (v \<in> set (map fst (succ_of g u)))"

definition edges_data :: "digraph \<Rightarrow> (string \<times> string \<times> edge_attrs) list" where
  "edges_data g = concat (map (\<lambda>n. map (\<lambda>(v, d). (node_name n, v, d)) (node_succ n)) g)"

definition number_of_edges :: "digraph \<Rightarrow> int" where
  "number_of_edges g = int (length (edges_data g))"

definition in_degree :: "digraph \<Rightarrow> string \<Rightarrow> int" where
  "in_degree g v = int (length (filter (\<lambda>(s, t, d). t = v) (edges_data g)))"

definition out_degree :: "digraph \<Rightarrow> string \<Rightarrow> int" where
  "out_degree g u = int (length (succ_of g u))"

text \<open>\<open>G.add_node(u)\<close> without attributes: a node that exists already is left alone.\<close>

definition add_node :: "digraph \<Rightarrow> string \<Rightarrow> digraph" where
  "add_node g u =
     (if has_node g u then g
      else g @ [\<lparr>node_name = u, node_data = no_node_attrs, node_succ = []\<rparr>])"

text \<open>\<open>dict.update\<close> on an edge's attribute dictionary: the given keys overwrite.\<close>

definition update_attrs :: "edge_attrs \<Rightarrow> edge_attrs \<Rightarrow> edge_attrs" where
  "update_attrs old new =
     \<lparr>weight = (case weight new of None \<Rightarrow> weight old | Some x \<Rightarrow> Some x),
      call_rate = (case call_rate new of None \<Rightarrow> call_rate old | Some x \<Rightarrow> Some x),
      p50_latency = (case p50_latency new of None \<Rightarrow> p50_latency old | Some x \<Rightarrow> Some x),
      p95_latency = (case p95_latency new of None \<Rightarrow> p95_latency old | Some x \<Rightarrow> Some x),
      error_rate = (case error_rate new of None \<Rightarrow> error_rate old | Some x \<Rightarrow> Some x),
      cost = (case cost new of None \<Rightarrow> cost old | Some x \<Rightarrow> Some x),
      is_shortcut = (case is_shortcut new of None \<Rightarrow> is_shortcut old | Some x \<Rightarrow> Some x)\<rparr>"

fun put_succ :: "(string \<times> edge_attrs) list \<Rightarrow> string \<Rightarrow> edge_attrs \<Rightarrow> (string \<times> edge_attrs) list" where
  "put_succ [] v a = [(v, a)]"
| "put_succ ((w, d) # rest) v a =
     (if w = v then (w, update_attrs d a) # rest else (w, d) # put_succ rest v a)"

text \<open>
  \<open>G.add_edge(u, v, **attr)\<close>: both end points are created when missing; an edge that
  exists keeps its place and has its attribute dictionary updated.
\<close>

definition add_edge :: "digraph \<Rightarrow> string \<Rightarrow> string \<Rightarrow> edge_attrs \<Rightarrow> digraph" where
  "add_edge g u v a =
     map (\<lambda>n. if node_name n = u then n\<lparr>node_succ := put_succ (node_succ n) v a\<rparr> else n)
       (add_node (add_node g u) v)"

text \<open>\<open>G.subgraph(ns)\<close>: the induced subgraph, in the iteration order of \<open>G\<close>.\<close>

definition subgraph :: "digraph \<Rightarrow> string list \<Rightarrow> digraph" where
  "subgraph g ns =
     map (\<lambda>n. n\<lparr>node_succ := filter (\<lambda>(v, d). v \<in> set ns) (node_succ n)\<rparr>)
       (filter (\<lambda>n. node_name n \<in> set ns) g)"

text \<open>
  \<open>G.to_undirected()\<close>: an undirected graph stores every edge in the adjacency of both
  end points; the directed edges are added in iteration order, a later one updating the
  attributes of an edge that is there already.
\<close>

definition add_undirected_edge :: "digraph \<Rightarrow> string \<times> string \<times> edge_attrs \<Rightarrow> digraph" where
  "add_undirected_edge g e =
     (case e of (u, v, a) \<Rightarrow> add_edge (add_edge g u v a) v u a)"

definition to_undirected :: "digraph \<Rightarrow> digraph" where
  "to_undirected g =
     foldl add_undirected_edge (map (\<lambda>n. n\<lparr>node_succ := []\<rparr>) g) (edges_data g)"

subsection \<open>Hop distance\<close>

text \<open>
  \<open>walk g k u v\<close>: there is a directed walk of exactly \<open>k\<close> edges from \<open>u\<close> to \<open>v\<close>.
  A shortest path visits no node twice, so the hop distance is the least such \<open>k\<close>
  below the number of nodes.  \<open>nx.shortest_path_length(G, u, v)\<close> returns it and raises
  \<open>NetworkXNoPath\<close> when there is none.
\<close>

fun walk :: "digraph \<Rightarrow> nat \<Rightarrow> string \<Rightarrow> string \<Rightarrow> bool" where
  "walk g 0 u v = (u = v)"
| "walk g (Suc k) u v = list_ex (\<lambda>(w, d). walk g k w v) (succ_of g u)"

definition hop_distance :: "digraph \<Rightarrow> string \<Rightarrow> string \<Rightarrow> nat option" where
  "hop_distance g u v = find (\<lambda>k. walk g k u v) [0..<length g]"

definition shortest_path_length :: "digraph \<Rightarrow> string \<Rightarrow> string \<Rightarrow> py_error + int" where
  "shortest_path_length g u v =
     (case hop_distance g u v of None \<Rightarrow> Inl NetworkXNoPath | Some k \<Rightarrow> Inr (int k))"

section \<open>Policy constraints and candidate generation\<close>

record PolicyConstraints =
  forbidden_pairs :: "(string \<times> string) list"
  allowed_zones :: "(string \<times> string list) list"
  max_new_edges_per_service :: int
  require_same_zone :: bool
  min_path_length_to_shortcut :: int

definition default_policy :: PolicyConstraints where
  "default_policy =
     \<lparr>forbidden_pairs = [], allowed_zones = [], max_new_edges_per_service = 3,
      require_same_zone = False, min_path_length_to_shortcut = 2\<rparr>"

text \<open>\<open>G.nodes[u].get("zone", "")\<close>, and Python's truth value of the result.\<close>

definition get_zone :: "digraph \<Rightarrow> string \<Rightarrow> zone_value" where
  "get_zone g u = (case zone (attrs_of g u) of None \<Rightarrow> ZoneStr [] | Some z \<Rightarrow> z)"

definition truthy :: "zone_value \<Rightarrow> bool" where
  "truthy z = (case z of ZoneNone \<Rightarrow> False | ZoneStr s \<Rightarrow> s \<noteq> [])"

text \<open>\<open>z in policy.allowed_zones\<close> (a dictionary keyed by strings) and \<open>z in xs\<close>.\<close>

definition zone_is_key :: "zone_value \<Rightarrow> (string \<times> string list) list \<Rightarrow> bool" where
  "zone_is_key z az = (case z of ZoneNone \<Rightarrow> False | ZoneStr s \<Rightarrow> map_of az s \<noteq> None)"

definition zone_list :: "zone_value \<Rightarrow> (string \<times> string list) list \<Rightarrow> string list" where
  "zone_list z az =
     (case z of ZoneNone \<Rightarrow> []
      | ZoneStr s \<Rightarrow> (case map_of az s of None \<Rightarrow> [] | Some xs \<Rightarrow> xs))"

definition zone_in_list :: "zone_value \<Rightarrow> string list \<Rightarrow> bool" where
  "zone_in_list z xs = (case z of ZoneNone \<Rightarrow> False | ZoneStr t \<Rightarrow> t \<in> set xs)"

text \<open>
  The three policy blocks of the inner loop; each is True when the block hits its
  \<open>continue\<close>.  For two nodes of the graph the only exception of
  \<open>nx.shortest_path_length\<close> is \<open>NetworkXNoPath\<close>, which the source catches and
  lets pass.
\<close>

definition same_zone_skips :: "digraph \<Rightarrow> PolicyConstraints \<Rightarrow> string \<Rightarrow> string \<Rightarrow> bool" where
  "same_zone_skips g p u v =
     (if require_same_zone p
      then truthy (get_zone g u) \<and> truthy (get_zone g v) \<and> get_zone g u \<noteq> get_zone g v
      else False)"

definition allowed_zones_skips :: "digraph \<Rightarrow> PolicyConstraints \<Rightarrow> string \<Rightarrow> string \<Rightarrow> bool" where
  "allowed_zones_skips g p u v =
     (if allowed_zones p \<noteq> []
      then (if zone_is_key (get_zone g u) (allowed_zones p)
            then \<not> zone_in_list (get_zone g v) (zone_list (get_zone g u) (allowed_zones p))
            else False)
      else False)"

definition path_length_skips :: "digraph \<Rightarrow> PolicyConstraints \<Rightarrow> string \<Rightarrow> string \<Rightarrow> bool" where
  "path_length_skips g p u v =
     (case shortest_path_length g u v of
        Inr path_length \<Rightarrow> path_length < min_path_length_to_shortcut p
      | Inl e \<Rightarrow> False)"

text \<open>The body of the inner loop of \<open>_generate_candidates\<close>: is the pair appended?\<close>

definition pair_retained :: "digraph \<Rightarrow> PolicyConstraints \<Rightarrow> string \<Rightarrow> string \<Rightarrow> bool" where
  "pair_retained g p u v =
     (if u = v then False
      else if has_edge g u v then False
      else if (u, v) \<in> set (forbidden_pairs p) then False
      else if (v, u) \<in> set (forbidden_pairs p) then False
      else if same_zone_skips g p u v then False
      else if allowed_zones_skips g p u v then False
      else if path_length_skips g p u v then False
      else True)"

fun targets_loop ::
  "digraph \<Rightarrow> PolicyConstraints \<Rightarrow> string \<Rightarrow> string list \<Rightarrow> (string \<times> string) list
    \<Rightarrow> (string \<times> string) list" where
  "targets_loop g p u [] candidates = candidates"
| "targets_loop g p u (v # rest) candidates =
     targets_loop g p u rest
       (if pair_retained g p u v then candidates @ [(u, v)] else candidates)"

text \<open>
  The outer loop.  \<open>edge_counts\<close> is the dictionary \<open>{n: 0 for n in nodes}\<close>; the source
  reads it at the head of every iteration and never writes to it.
\<close>

fun sources_loop ::
  "digraph \<Rightarrow> PolicyConstraints \<Rightarrow> (string \<rightharpoonup> int) \<Rightarrow> string list \<Rightarrow> (string \<times> string) list
    \<Rightarrow> (string \<times> string) list" where
  "sources_loop g p edge_counts [] candidates = candidates"
| "sources_loop g p edge_counts (u # rest) candidates =
     (if the (edge_counts u) \<ge> max_new_edges_per_service p
      then sources_loop g p edge_counts rest candidates
      else sources_loop g p edge_counts rest (targets_loop g p u (nodes g) candidates))"

definition generate_candidates :: "digraph \<Rightarrow> PolicyConstraints \<Rightarrow> (string \<times> string) list" where
  "generate_candidates g p =
     sources_loop g p (map_of (map (\<lambda>n. (n, 0)) (nodes g))) (nodes g) []"

section \<open>The graph library interface\<close>

text \<open>
  The metrics calculator calls graph algorithms of networkx and \<open>numpy.percentile\<close>.
  They are not part of the repository, so the calculator is modelled over an arbitrary
  implementation of them: a record of functions of the graph value.  A call that may
  raise returns a sum, \<open>Inl\<close> carrying the exception.  Mappings from nodes to numbers
  are partial functions; mappings whose iteration order is used are association lists.
  The undirected projection is passed to the clustering functions as the symmetric graph
  built by \<open>to_undirected\<close>.
\<close>

record nx_lib =
  nx_betweenness_centrality :: "digraph \<Rightarrow> py_error + (string \<rightharpoonup> real)"
  nx_closeness_centrality :: "digraph \<Rightarrow> py_error + (string \<rightharpoonup> real)"
  nx_clustering :: "digraph \<Rightarrow> py_error + (string \<rightharpoonup> real)"
  nx_average_clustering :: "digraph \<Rightarrow> py_error + real"
  nx_pagerank :: "digraph \<Rightarrow> real \<Rightarrow> py_error + (string \<rightharpoonup> real)"
  nx_is_weakly_connected :: "digraph \<Rightarrow> py_error + bool"
  nx_strongly_connected_components :: "digraph \<Rightarrow> py_error + string list list"
  nx_average_shortest_path_length :: "digraph \<Rightarrow> py_error + real"
  nx_single_source_shortest_path_length :: "digraph \<Rightarrow> string \<Rightarrow> py_error + (string \<times> int) list"
  nx_single_source_dijkstra_path_length :: "digraph \<Rightarrow> string \<Rightarrow> py_error + (string \<times> real) list"
  nx_is_strongly_connected :: "digraph \<Rightarrow> py_error + bool"
  nx_diameter :: "digraph \<Rightarrow> py_error + int"
  nx_number_weakly_connected_components :: "digraph \<Rightarrow> int"
  nx_number_strongly_connected_components :: "digraph \<Rightarrow> int"
  np_percentile :: "real list \<Rightarrow> real \<Rightarrow> real"

section \<open>The metrics calculator\<close>

record NodeMetrics =
  name :: string
  in_degree_m :: int
  out_degree_m :: int
  total_degree :: int
  betweenness_centrality :: real
  closeness_centrality :: real
  clustering_coefficient :: real
  pagerank :: real
  incoming_load :: real
  outgoing_load :: real
  is_hub :: bool
  is_bottleneck :: bool
  vulnerability_score :: real

record GraphMetrics =
  node_count :: int
  edge_count :: int
  density :: real
  average_path_length :: real
  weighted_average_path_length :: real
  diameter :: int
  average_clustering :: real
  is_connected :: bool
  strongly_connected_components :: int
  weakly_connected_components :: int
  max_betweenness :: real
  total_load :: real
  hub_count :: int
  bottleneck_count :: int
  small_world_coefficient :: real

text \<open>\<open>GraphMetrics()\<close>: every field at its default.\<close>

definition default_graph_metrics :: GraphMetrics where
  "default_graph_metrics =
     \<lparr>node_count = 0, edge_count = 0, density = 0, average_path_length = 0,
      weighted_average_path_length = 0, diameter = 0, average_clustering = 0,
      is_connected = False, strongly_connected_components = 0,
      weakly_connected_components = 0, max_betweenness = 0, total_load = 0,
      hub_count = 0, bottleneck_count = 0, small_world_coefficient = 0\<rparr>"

record MetricsCalculator =
  calc_graph :: digraph
  hub_threshold :: real
  bottleneck_threshold :: real

text \<open>\<open>MetricsCalculator(graph=g)\<close>: the thresholds keep their defaults.\<close>

definition new_calculator :: "digraph \<Rightarrow> MetricsCalculator" where
  "new_calculator g = \<lparr>calc_graph = g, hub_threshold = 7 / 10, bottleneck_threshold = 8 / 10\<rparr>"

text \<open>\<open>d.get(k, default)\<close>, and \<open>try: d = f(G) except Exception: d = fallback\<close>.\<close>

definition dict_get :: "('k \<rightharpoonup> 'v) \<Rightarrow> 'k \<Rightarrow> 'v \<Rightarrow> 'v" where
  "dict_get d k dflt = (case d k of None \<Rightarrow> dflt | Some x \<Rightarrow> x)"

definition or_else :: "py_error + 'a \<Rightarrow> 'a \<Rightarrow> 'a" where
  "or_else r fallback = (case r of Inl e \<Rightarrow> fallback | Inr x \<Rightarrow> x)"

definition const_dict :: "digraph \<Rightarrow> real \<Rightarrow> (string \<rightharpoonup> real)" where
  "const_dict g c = map_of (map (\<lambda>n. (n, c)) (nodes g))"

definition get_call_rate :: "edge_attrs \<Rightarrow> real" where
  "get_call_rate d = (case call_rate d of None \<Rightarrow> 0 | Some c \<Rightarrow> c)"

definition calculate_incoming_load :: "digraph \<Rightarrow> (string \<rightharpoonup> real)" where
  "calculate_incoming_load g =
     foldl (\<lambda>load (s, t, d). load(t \<mapsto> the (load t) + get_call_rate d))
       (const_dict g 0) (edges_data g)"

definition calculate_outgoing_load :: "digraph \<Rightarrow> (string \<rightharpoonup> real)" where
  "calculate_outgoing_load g =
     foldl (\<lambda>load (s, t, d). load(s \<mapsto> the (load s) + get_call_rate d))
       (const_dict g 0) (edges_data g)"

definition calculate_node_metrics :: "nx_lib \<Rightarrow> digraph \<Rightarrow> (string \<times> NodeMetrics) list" where
  "calculate_node_metrics L g =
     (let betweenness = or_else (nx_betweenness_centrality L g) (const_dict g 0);
          closeness = or_else (nx_closeness_centrality L g) (const_dict g 0);
          undirected = to_undirected g;
          clustering = or_else (nx_clustering L undirected) (const_dict g 0);
          pagerank_d = or_else (nx_pagerank L g (85 / 100))
                         (const_dict g (1 / real_of_int (number_of_nodes g)));
          incoming = calculate_incoming_load g;
          outgoing = calculate_outgoing_load g
      in map (\<lambda>node.
           (node,
            \<lparr>name = node,
             in_degree_m = in_degree g node,
             out_degree_m = out_degree g node,
             total_degree = in_degree g node + out_degree g node,
             betweenness_centrality = dict_get betweenness node 0,
             closeness_centrality = dict_get closeness node 0,
             clustering_coefficient = dict_get clustering node 0,
             pagerank = dict_get pagerank_d node 0,
             incoming_load = dict_get incoming node 0,
             outgoing_load = dict_get outgoing node 0,
             is_hub = False,
             is_bottleneck = False,
             vulnerability_score = 0\<rparr>)) (nodes g))"

text \<open>\<open>max(xs, key=len)\<close>: the first longest element; \<open>ValueError\<close> on an empty sequence.\<close>

fun max_by_len :: "'a list list \<Rightarrow> 'a list option" where
  "max_by_len [] = None"
| "max_by_len (x # xs) =
     (case max_by_len xs of
        None \<Rightarrow> Some x
      | Some y \<Rightarrow> if length y > length x then Some y else Some x)"

text \<open>
  The fallback loops over all reachable ordered pairs: \<open>(total_length, count)\<close> is the
  loop state; an exception from the library leaves the loop.
\<close>

definition add_lengths :: "string \<Rightarrow> (string \<times> 'a) list \<Rightarrow> ('a \<Rightarrow> real) \<Rightarrow> real \<times> int \<Rightarrow> real \<times> int" where
  "add_lengths u lengths conv acc =
     foldl (\<lambda>(total_length, count) (v, l).
              if u \<noteq> v then (total_length + conv l, count + 1) else (total_length, count))
       acc lengths"

fun all_pairs_loop ::
  "nx_lib \<Rightarrow> digraph \<Rightarrow> string list \<Rightarrow> real \<times> int \<Rightarrow> py_error + real \<times> int" where
  "all_pairs_loop L g [] acc = Inr acc"
| "all_pairs_loop L g (u # rest) acc =
     (case nx_single_source_shortest_path_length L g u of
        Inl e \<Rightarrow> Inl e
      | Inr lengths \<Rightarrow> all_pairs_loop L g rest (add_lengths u lengths real_of_int acc))"

definition largest_scc :: "nx_lib \<Rightarrow> digraph \<Rightarrow> py_error + string list" where
  "largest_scc L g =
     (case nx_strongly_connected_components L g of
        Inl e \<Rightarrow> Inl e
      | Inr sccs \<Rightarrow> (case max_by_len sccs of None \<Rightarrow> Inl ValueError | Some c \<Rightarrow> Inr c))"

definition average_over_pairs :: "nx_lib \<Rightarrow> digraph \<Rightarrow> py_error + real" where
  "average_over_pairs L g =
     (case all_pairs_loop L g (nodes g) (0, 0) of
        Inl e \<Rightarrow> Inl e
      | Inr (total_length, count) \<Rightarrow>
          Inr (if count > 0 then total_length / real_of_int count else 0))"

definition calculate_average_path_length :: "nx_lib \<Rightarrow> digraph \<Rightarrow> real" where
  "calculate_average_path_length L g =
     or_else
       (case nx_is_weakly_connected L g of
          Inl e \<Rightarrow> Inl e
        | Inr True \<Rightarrow>
            (case largest_scc L g of
               Inl e \<Rightarrow> Inl e
             | Inr scc \<Rightarrow>
                 if length scc > 1 then nx_average_shortest_path_length L (subgraph g scc)
                 else average_over_pairs L g)
        | Inr False \<Rightarrow> average_over_pairs L g)
       0"

text \<open>
  The weighted variant: \<open>NetworkXNoPath\<close> from one source skips that source, any other
  exception makes the result 0.
\<close>

fun weighted_pairs_loop ::
  "nx_lib \<Rightarrow> digraph \<Rightarrow> string list \<Rightarrow> real \<times> int \<Rightarrow> py_error + real \<times> int" where
  "weighted_pairs_loop L g [] acc = Inr acc"
| "weighted_pairs_loop L g (u # rest) acc =
     (case nx_single_source_dijkstra_path_length L g u of
        Inl NetworkXNoPath \<Rightarrow> weighted_pairs_loop L g rest acc
      | Inl e \<Rightarrow> Inl e
      | Inr lengths \<Rightarrow> weighted_pairs_loop L g rest (add_lengths u lengths (\<lambda>x. x) acc))"

definition calculate_weighted_average_path_length :: "nx_lib \<Rightarrow> digraph \<Rightarrow> real" where
  "calculate_weighted_average_path_length L g =
     or_else
       (case weighted_pairs_loop L g (nodes g) (0, 0) of
          Inl e \<Rightarrow> Inl e
        | Inr (total_length, count) \<Rightarrow>
            Inr (if count > 0 then total_length / real_of_int count else 0))
       0"

definition calculate_diameter :: "nx_lib \<Rightarrow> digraph \<Rightarrow> int" where
  "calculate_diameter L g =
     or_else
       (case nx_is_strongly_connected L g of
          Inl e \<Rightarrow> Inl e
        | Inr True \<Rightarrow> nx_diameter L g
        | Inr False \<Rightarrow>
            (case largest_scc L g of
               Inl e \<Rightarrow> Inl e
             | Inr scc \<Rightarrow> if length scc > 1 then nx_diameter L (subgraph g scc) else Inr 0))
       0"

text \<open>The comparison with an Erdos-Renyi graph of the same size; \<open>np.log\<close> is \<open>ln\<close>.\<close>

definition calculate_small_world_coefficient :: "real \<Rightarrow> real \<Rightarrow> int \<Rightarrow> int \<Rightarrow> real" where
  "calculate_small_world_coefficient clustering path_length n m =
     (if path_length = 0 \<or> n < 3 then 0
      else
        let p = (if n > 1 then real_of_int m / real_of_int (n * (n - 1)) else 0);
            random_clustering = p;
            avg_degree = (if n > 0 then real_of_int (2 * m) / real_of_int n else 0);
            random_path_length =
              (if avg_degree > 1 then ln (real_of_int n) / ln avg_degree
               else real_of_int n / 2)
        in if random_clustering = 0 \<or> random_path_length = 0 then 0
           else
             let gamma_ratio = (if random_clustering > 0 then clustering / random_clustering else 0);
                 lambda_ratio = path_length / random_path_length
             in gamma_ratio / lambda_ratio)"

text \<open>\<open>max(xs, default=0.0)\<close>.\<close>

definition max_default :: "real list \<Rightarrow> real" where
  "max_default xs = (case xs of [] \<Rightarrow> 0 | x # rest \<Rightarrow> foldl max x rest)"

definition calculate_graph_metrics ::
  "nx_lib \<Rightarrow> digraph \<Rightarrow> (string \<times> NodeMetrics) list \<Rightarrow> GraphMetrics" where
  "calculate_graph_metrics L g node_metrics =
     (let n = number_of_nodes g;
          m = number_of_edges g
      in if n = 0 then default_graph_metrics
         else
           let max_edges = n * (n - 1);
               density_v = (if max_edges > 0 then real_of_int m / real_of_int max_edges else 0);
               avg_path_length = calculate_average_path_length L g;
               weighted_avg_path_length = calculate_weighted_average_path_length L g;
               diameter_v = calculate_diameter L g;
               undirected = to_undirected g;
               avg_clustering = or_else (nx_average_clustering L undirected) 0;
               weakly_connected = nx_number_weakly_connected_components L g;
               strongly_connected = nx_number_strongly_connected_components L g;
               max_betweenness_v =
                 max_default (map (\<lambda>(k, nm). betweenness_centrality nm) node_metrics);
               total_load_v = sum_list (map (\<lambda>(k, nm). incoming_load nm) node_metrics);
               small_world_coef = calculate_small_world_coefficient avg_clustering avg_path_length n m
           in \<lparr>node_count = n, edge_count = m, density = density_v,
               average_path_length = avg_path_length,
               weighted_average_path_length = weighted_avg_path_length,
               diameter = diameter_v,
               average_clustering = avg_clustering,
               is_connected = (weakly_connected = 1),
               strongly_connected_components = strongly_connected,
               weakly_connected_components = weakly_connected,
               max_betweenness = max_betweenness_v,
               total_load = total_load_v,
               hub_count = 0, bottleneck_count = 0,
               small_world_coefficient = small_world_coef\<rparr>)"

definition calculate_vulnerability :: "NodeMetrics \<Rightarrow> real" where
  "calculate_vulnerability nm =
     (let betweenness_factor = betweenness_centrality nm;
          load_factor = incoming_load nm + outgoing_load nm;
          max_load = 10000;
          normalized_load = min (load_factor / max_load) 1
      in 6 / 10 * betweenness_factor + 4 / 10 * normalized_load)"

text \<open>
  \<open>_identify_hubs_and_bottlenecks\<close> writes into the node metrics and the graph metrics
  it was given; the model returns both.
\<close>

definition hub_test :: "real \<Rightarrow> NodeMetrics \<Rightarrow> bool" where
  "hub_test hub_degree_threshold nm = (real_of_int (total_degree nm) \<ge> hub_degree_threshold)"

definition bottleneck_test :: "real \<Rightarrow> NodeMetrics \<Rightarrow> bool" where
  "bottleneck_test bottleneck_thr nm = (betweenness_centrality nm \<ge> bottleneck_thr)"

definition mark_node :: "real \<Rightarrow> real \<Rightarrow> NodeMetrics \<Rightarrow> NodeMetrics" where
  "mark_node hub_degree_threshold bottleneck_thr nm =
     (let nm1 = (if hub_test hub_degree_threshold nm then nm\<lparr>is_hub := True\<rparr> else nm);
          nm2 = (if bottleneck_test bottleneck_thr nm1 then nm1\<lparr>is_bottleneck := True\<rparr> else nm1)
      in nm2\<lparr>vulnerability_score := calculate_vulnerability nm2\<rparr>)"

definition identify_hubs_and_bottlenecks ::
  "nx_lib \<Rightarrow> MetricsCalculator \<Rightarrow> (string \<times> NodeMetrics) list \<Rightarrow> GraphMetrics
    \<Rightarrow> GraphMetrics \<times> (string \<times> NodeMetrics) list" where
  "identify_hubs_and_bottlenecks L mc node_metrics graph_metrics =
     (if node_metrics = [] then (graph_metrics, node_metrics)
      else
        let degrees = map (\<lambda>(k, nm). real_of_int (total_degree nm)) node_metrics;
            betweenness_values = map (\<lambda>(k, nm). betweenness_centrality nm) node_metrics;
            hub_degree_threshold = np_percentile L degrees (hub_threshold mc * 100);
            bottleneck_thr = np_percentile L betweenness_values (bottleneck_threshold mc * 100);
            hubs = filter (\<lambda>(k, nm). hub_test hub_degree_threshold nm) node_metrics;
            bottlenecks = filter (\<lambda>(k, nm). bottleneck_test bottleneck_thr nm) node_metrics
        in (graph_metrics\<lparr>hub_count := int (length hubs),
                           bottleneck_count := int (length bottlenecks)\<rparr>,
            map (\<lambda>(k, nm). (k, mark_node hub_degree_threshold bottleneck_thr nm)) node_metrics))"

definition calculate_all ::
  "nx_lib \<Rightarrow> MetricsCalculator \<Rightarrow> GraphMetrics \<times> (string \<times> NodeMetrics) list" where
  "calculate_all L mc =
     (if number_of_nodes (calc_graph mc) = 0 then (default_graph_metrics, [])
      else
        let node_metrics = calculate_node_metrics L (calc_graph mc);
            graph_metrics = calculate_graph_metrics L (calc_graph mc) node_metrics
        in identify_hubs_and_bottlenecks L mc node_metrics graph_metrics)"

definition get_cost :: "edge_attrs \<Rightarrow> real" where
  "get_cost d = (case cost d of None \<Rightarrow> 0 | Some c \<Rightarrow> c)"

definition total_cost :: "digraph \<Rightarrow> real" where
  "total_cost g = sum_list (map (\<lambda>(s, t, d). get_cost d) (edges_data g))"

definition get_objective_value :: "nx_lib \<Rightarrow> MetricsCalculator \<Rightarrow> real \<Rightarrow> real \<Rightarrow> real \<Rightarrow> real" where
  "get_objective_value L mc a b c =
     (case calculate_all L mc of
        (graph_metrics, node_metrics) \<Rightarrow>
          a * average_path_length graph_metrics
          + b * max_betweenness graph_metrics
          + c * total_cost (calc_graph mc))"

section \<open>Graph objects\<close>

text \<open>
  Graphs are mutable objects: the optimizer holds a reference to one, \<open>G.copy()\<close>
  allocates a new object with the same nodes, edges and attribute dictionaries, and
  \<open>G.add_edge\<close> writes into the object it is called on.  The store maps references to
  graph values; \<open>next_ref\<close> is the next free reference.
\<close>

record heap =
  cells :: "nat \<Rightarrow> digraph option"
  next_ref :: nat

definition deref :: "heap \<Rightarrow> nat \<Rightarrow> digraph" where
  "deref h r = the (cells h r)"

definition graph_copy :: "nat \<Rightarrow> heap \<Rightarrow> nat \<times> heap" where
  "graph_copy r h =
     (next_ref h, h\<lparr>cells := (cells h)(next_ref h := cells h r), next_ref := Suc (next_ref h)\<rparr>)"

definition graph_add_edge :: "nat \<Rightarrow> string \<Rightarrow> string \<Rightarrow> edge_attrs \<Rightarrow> heap \<Rightarrow> heap" where
  "graph_add_edge r u v a h =
     h\<lparr>cells := (cells h)(r := map_option (\<lambda>g. add_edge g u v a) (cells h r))\<rparr>"

text \<open>
  \<open>MetricsCalculator(graph=r).calculate_all()\<close> as the optimizer uses it: the metrics of
  the graph object \<open>r\<close>, with the store of graphs as it was.  The next subsection follows
  the calculator operation by operation, temporaries included; the two agree on the
  result and on every graph object that existed before the call.
\<close>

definition calculate_all_of :: "nx_lib \<Rightarrow> nat \<Rightarrow> heap \<Rightarrow> (GraphMetrics \<times> (string \<times> NodeMetrics) list) \<times> heap" where
  "calculate_all_of L r h = (calculate_all L (new_calculator (deref h r)), h)"

subsection \<open>The calculator, operation by operation\<close>

text \<open>
  The same calculator with every access to a graph object written as an operation on the
  store, method by method.  \<open>observe f r\<close> is a read-only use of the object \<open>r\<close>: a
  query method of the graph (\<open>nodes()\<close>, \<open>edges(data=True)\<close>, \<open>in_degree()\<close>,
  \<open>number_of_nodes()\<close>) or a library function applied to it, which by the interface
  is a function of the graph value.  \<open>G.to_undirected()\<close> and \<open>G.subgraph(ns)\<close>
  allocate a new graph object.  The node metrics and the graph metrics are objects the
  calculator creates itself; they are kept as values.
\<close>

definition observe :: "(digraph \<Rightarrow> 'a) \<Rightarrow> nat \<Rightarrow> heap \<Rightarrow> 'a \<times> heap" where
  "observe f r h = (f (deref h r), h)"

definition graph_to_undirected :: "nat \<Rightarrow> heap \<Rightarrow> nat \<times> heap" where
  "graph_to_undirected r h =
     (next_ref h,
      h\<lparr>cells := (cells h)(next_ref h \<mapsto> to_undirected (deref h r)),
        next_ref := Suc (next_ref h)\<rparr>)"

definition graph_subgraph :: "nat \<Rightarrow> string list \<Rightarrow> heap \<Rightarrow> nat \<times> heap" where
  "graph_subgraph r ns h =
     (next_ref h,
      h\<lparr>cells := (cells h)(next_ref h \<mapsto> subgraph (deref h r) ns),
        next_ref := Suc (next_ref h)\<rparr>)"

text \<open>
  \<open>try: d = f(G) except Exception: d = fallback\<close>, where the fallback is built from the
  nodes of the calculator's own graph.
\<close>

definition try_observe ::
  "(digraph \<Rightarrow> py_error + 'a) \<Rightarrow> nat \<Rightarrow> (digraph \<Rightarrow> 'a) \<Rightarrow> nat \<Rightarrow> heap \<Rightarrow> 'a \<times> heap" where
  "try_observe f rf fallback rb h =
     (case observe f rf h of
        (Inl e, h1) \<Rightarrow> observe fallback rb h1
      | (Inr x, h1) \<Rightarrow> (x, h1))"

definition calculate_node_metrics_st ::
  "nx_lib \<Rightarrow> nat \<Rightarrow> heap \<Rightarrow> (string \<times> NodeMetrics) list \<times> heap" where
  "calculate_node_metrics_st L r h =
     (case observe (\<lambda>g. (in_degree g, out_degree g)) r h of
        ((in_degrees, out_degrees), h0) \<Rightarrow>
      case try_observe (nx_betweenness_centrality L) r (\<lambda>g. const_dict g 0) r h0 of
        (betweenness, h1) \<Rightarrow>
      case try_observe (nx_closeness_centrality L) r (\<lambda>g. const_dict g 0) r h1 of
        (closeness, h2) \<Rightarrow>
      case graph_to_undirected r h2 of
        (undirected, h3) \<Rightarrow>
      case try_observe (nx_clustering L) undirected (\<lambda>g. const_dict g 0) r h3 of
        (clustering, h4) \<Rightarrow>
      case try_observe (\<lambda>g. nx_pagerank L g (85 / 100)) r
             (\<lambda>g. const_dict g (1 / real_of_int (number_of_nodes g))) r h4 of
        (pagerank_d, h5) \<Rightarrow>
      case observe calculate_incoming_load r h5 of
        (incoming, h6) \<Rightarrow>
      case observe calculate_outgoing_load r h6 of
        (outgoing, h7) \<Rightarrow>
      case observe nodes r h7 of
        (ns, h8) \<Rightarrow>
        (map (\<lambda>node.
           (node,
            \<lparr>name = node,
             in_degree_m = in_degrees node,
             out_degree_m = out_degrees node,
             total_degree = in_degrees node + out_degrees node,
             betweenness_centrality = dict_get betweenness node 0,
             closeness_centrality = dict_get closeness node 0,
             clustering_coefficient = dict_get clustering node 0,
             pagerank = dict_get pagerank_d node 0,
             incoming_load = dict_get incoming node 0,
             outgoing_load = dict_get outgoing node 0,
             is_hub = False,
             is_bottleneck = False,
             vulnerability_score = 0\<rparr>)) ns, h8))"

fun all_pairs_loop_st ::
  "nx_lib \<Rightarrow> nat \<Rightarrow> string list \<Rightarrow> real \<times> int \<Rightarrow> heap \<Rightarrow> (py_error + real \<times> int) \<times> heap" where
  "all_pairs_loop_st L r [] acc h = (Inr acc, h)"
| "all_pairs_loop_st L r (u # rest) acc h =
     (case observe (\<lambda>g. nx_single_source_shortest_path_length L g u) r h of
        (Inl e, h1) \<Rightarrow> (Inl e, h1)
      | (Inr lengths, h1) \<Rightarrow>
          all_pairs_loop_st L r rest (add_lengths u lengths real_of_int acc) h1)"

definition average_over_pairs_st :: "nx_lib \<Rightarrow> nat \<Rightarrow> heap \<Rightarrow> (py_error + real) \<times> heap" where
  "average_over_pairs_st L r h =
     (case observe nodes r h of
        (ns, h1) \<Rightarrow>
      case all_pairs_loop_st L r ns (0, 0) h1 of
        (Inl e, h2) \<Rightarrow> (Inl e, h2)
      | (Inr (total_length, count), h2) \<Rightarrow>
          (Inr (if count > 0 then total_length / real_of_int count else 0), h2))"

definition largest_scc_st :: "nx_lib \<Rightarrow> nat \<Rightarrow> heap \<Rightarrow> (py_error + string list) \<times> heap" where
  "largest_scc_st L r h =
     (case observe (nx_strongly_connected_components L) r h of
        (Inl e, h1) \<Rightarrow> (Inl e, h1)
      | (Inr sccs, h1) \<Rightarrow>
          (case max_by_len sccs of None \<Rightarrow> (Inl ValueError, h1) | Some c \<Rightarrow> (Inr c, h1)))"

definition average_path_length_body ::
  "nx_lib \<Rightarrow> nat \<Rightarrow> heap \<Rightarrow> (py_error + real) \<times> heap" where
  "average_path_length_body L r h =
     (case observe (nx_is_weakly_connected L) r h of
        (Inl e, h1) \<Rightarrow> (Inl e, h1)
      | (Inr True, h1) \<Rightarrow>
          (case largest_scc_st L r h1 of
             (Inl e, h2) \<Rightarrow> (Inl e, h2)
           | (Inr scc, h2) \<Rightarrow>
               if length scc > 1
               then (case graph_subgraph r scc h2 of
                       (sub, h3) \<Rightarrow> observe (nx_average_shortest_path_length L) sub h3)
               else average_over_pairs_st L r h2)
      | (Inr False, h1) \<Rightarrow> average_over_pairs_st L r h1)"

definition calculate_average_path_length_st :: "nx_lib \<Rightarrow> nat \<Rightarrow> heap \<Rightarrow> real \<times> heap" where
  "calculate_average_path_length_st L r h =
     (case average_path_length_body L r h of (res, h1) \<Rightarrow> (or_else res 0, h1))"

fun weighted_pairs_loop_st ::
  "nx_lib \<Rightarrow> nat \<Rightarrow> string list \<Rightarrow> real \<times> int \<Rightarrow> heap \<Rightarrow> (py_error + real \<times> int) \<times> heap" where
  "weighted_pairs_loop_st L r [] acc h = (Inr acc, h)"
| "weighted_pairs_loop_st L r (u # rest) acc h =
     (case observe (\<lambda>g. nx_single_source_dijkstra_path_length L g u) r h of
        (Inl NetworkXNoPath, h1) \<Rightarrow> weighted_pairs_loop_st L r rest acc h1
      | (Inl e, h1) \<Rightarrow> (Inl e, h1)
      | (Inr lengths, h1) \<Rightarrow>
          weighted_pairs_loop_st L r rest (add_lengths u lengths (\<lambda>x. x) acc) h1)"

definition calculate_weighted_average_path_length_st ::
  "nx_lib \<Rightarrow> nat \<Rightarrow> heap \<Rightarrow> real \<times> heap" where
  "calculate_weighted_average_path_length_st L r h =
     (case observe nodes r h of
        (ns, h1) \<Rightarrow>
      case weighted_pairs_loop_st L r ns (0, 0) h1 of
        (Inl e, h2) \<Rightarrow> (0, h2)
      | (Inr (total_length, count), h2) \<Rightarrow>
          (if count > 0 then total_length / real_of_int count else 0, h2))"

definition diameter_body :: "nx_lib \<Rightarrow> nat \<Rightarrow> heap \<Rightarrow> (py_error + int) \<times> heap" where
  "diameter_body L r h =
     (case observe (nx_is_strongly_connected L) r h of
        (Inl e, h1) \<Rightarrow> (Inl e, h1)
      | (Inr True, h1) \<Rightarrow> observe (nx_diameter L) r h1
      | (Inr False, h1) \<Rightarrow>
          (case largest_scc_st L r h1 of
             (Inl e, h2) \<Rightarrow> (Inl e, h2)
           | (Inr scc, h2) \<Rightarrow>
               if length scc > 1
               then (case graph_subgraph r scc h2 of
                       (sub, h3) \<Rightarrow> observe (nx_diameter L) sub h3)
               else (Inr 0, h2)))"

definition calculate_diameter_st :: "nx_lib \<Rightarrow> nat \<Rightarrow> heap \<Rightarrow> int \<times> heap" where
  "calculate_diameter_st L r h =
     (case diameter_body L r h of (res, h1) \<Rightarrow> (or_else res 0, h1))"

definition calculate_graph_metrics_st ::
  "nx_lib \<Rightarrow> nat \<Rightarrow> (string \<times> NodeMetrics) list \<Rightarrow> heap \<Rightarrow> GraphMetrics \<times> heap" where
  "calculate_graph_metrics_st L r node_metrics h =
     (case observe number_of_nodes r h of
        (n, h0) \<Rightarrow>
      case observe number_of_edges r h0 of
        (m, h1) \<Rightarrow>
        if n = 0 then (default_graph_metrics, h1)
        else
          (case calculate_average_path_length_st L r h1 of
             (avg_path_length, h2) \<Rightarrow>
           case calculate_weighted_average_path_length_st L r h2 of
             (weighted_avg_path_length, h3) \<Rightarrow>
           case calculate_diameter_st L r h3 of
             (diameter_v, h4) \<Rightarrow>
           case graph_to_undirected r h4 of
             (undirected, h5) \<Rightarrow>
           case observe (nx_average_clustering L) undirected h5 of
             (clustering_res, h6) \<Rightarrow>
           case observe (nx_number_weakly_connected_components L) r h6 of
             (weakly_connected, h7) \<Rightarrow>
           case observe (nx_number_strongly_connected_components L) r h7 of
             (strongly_connected, h8) \<Rightarrow>
             (let max_edges = n * (n - 1);
                  density_v = (if max_edges > 0 then real_of_int m / real_of_int max_edges else 0);
                  avg_clustering = or_else clustering_res 0;
                  max_betweenness_v =
                    max_default (map (\<lambda>(k, nm). betweenness_centrality nm) node_metrics);
                  total_load_v = sum_list (map (\<lambda>(k, nm). incoming_load nm) node_metrics);
                  small_world_coef =
                    calculate_small_world_coefficient avg_clustering avg_path_length n m
              in (\<lparr>node_count = n, edge_count = m, density = density_v,
                   average_path_length = avg_path_length,
                   weighted_average_path_length = weighted_avg_path_length,
                   diameter = diameter_v,
                   average_clustering = avg_clustering,
                   is_connected = (weakly_connected = 1),
                   strongly_connected_components = strongly_connected,
                   weakly_connected_components = weakly_connected,
                   max_betweenness = max_betweenness_v,
                   total_load = total_load_v,
                   hub_count = 0, bottleneck_count = 0,
                   small_world_coefficient = small_world_coef\<rparr>, h8))))"

text \<open>
  \<open>MetricsCalculator(graph=r).calculate_all()\<close>; the last step only writes into the
  metrics.
\<close>

definition calculate_all_st ::
  "nx_lib \<Rightarrow> nat \<Rightarrow> heap \<Rightarrow> (GraphMetrics \<times> (string \<times> NodeMetrics) list) \<times> heap" where
  "calculate_all_st L r h =
     (case observe number_of_nodes r h of
        (n, h0) \<Rightarrow>
        if n = 0 then ((default_graph_metrics, []), h0)
        else
          (case calculate_node_metrics_st L r h0 of
             (node_metrics, h1) \<Rightarrow>
           case calculate_graph_metrics_st L r node_metrics h1 of
             (graph_metrics, h2) \<Rightarrow>
             (identify_hubs_and_bottlenecks L (new_calculator (deref h2 r)) node_metrics
                graph_metrics, h2)))"

text \<open>
  \<open>heap_extends h h'\<close>: every graph object of \<open>h\<close> has the same value in \<open>h'\<close>, and
  \<open>h'\<close> may hold new objects.
\<close>

definition heap_extends :: "heap \<Rightarrow> heap \<Rightarrow> bool" where
  "heap_extends h h' =
     (next_ref h \<le> next_ref h' \<and> (\<forall>r. r < next_ref h \<longrightarrow> cells h' r = cells h r))"

section \<open>The shortcut optimizer\<close>

datatype OptimizationGoal = LATENCY | PATHS | LOAD | BALANCED

datatype reason =
  ReducesAveragePathLength real
  | ReducesMaxBetweenness real
  | ReducesWeightedPathLength real
  | MinorOptimizationBenefit

record ShortcutCandidate =
  source :: string
  target :: string
  delta_objective :: real
  delta_path_length :: real
  delta_max_betweenness :: real
  delta_weighted_path_length :: real
  risk_score :: real
  confidence :: real
  score :: real
  rationale :: "reason list"
  estimated_latency :: real
  estimated_call_rate :: real

record ShortcutOptimizer =
  graph :: nat
  goal :: OptimizationGoal
  alpha :: real
  beta :: real
  gamma :: real
  epsilon :: real

text \<open>\<open>ShortcutOptimizer(graph=r)\<close>: the weights keep their defaults.\<close>

definition new_optimizer :: "nat \<Rightarrow> ShortcutOptimizer" where
  "new_optimizer r =
     \<lparr>graph = r, goal = BALANCED, alpha = 1, beta = 1, gamma = 1 / 10, epsilon = 1 / 100\<rparr>"

definition calculate_objective :: "ShortcutOptimizer \<Rightarrow> GraphMetrics \<Rightarrow> real" where
  "calculate_objective opt metrics =
     alpha opt * average_path_length metrics
     + beta opt * max_betweenness metrics
     + gamma opt * 0"

definition estimate_shortcut_latency :: "digraph \<Rightarrow> real" where
  "estimate_shortcut_latency g =
     (let latencies =
            map (\<lambda>(s, t, d). case p50_latency d of None \<Rightarrow> 1 | Some x \<Rightarrow> x)
              (filter (\<lambda>(s, t, d). (case p50_latency d of None \<Rightarrow> 0 | Some x \<Rightarrow> x) > 0)
                 (edges_data g))
      in if latencies = [] then 1
         else (sum_list latencies / real (length latencies)) * (8 / 10))"

definition calculate_risk_score :: "string \<Rightarrow> string \<Rightarrow> (string \<times> NodeMetrics) list \<Rightarrow> real" where
  "calculate_risk_score u v node_metrics =
     (let risk0 = 0;
          risk1 =
            (case map_of node_metrics v of
               None \<Rightarrow> risk0
             | Some target_metrics \<Rightarrow>
                 (let r = risk0 + betweenness_centrality target_metrics * (5 / 10)
                  in if is_bottleneck target_metrics then r + 3 / 10 else r));
          risk2 =
            (case map_of node_metrics u of
               None \<Rightarrow> risk1
             | Some source_metrics \<Rightarrow> if is_hub source_metrics then risk1 + 2 / 10 else risk1);
          risk3 = risk2 + 1 / 10
      in min risk3 1)"

definition calculate_confidence :: "real \<Rightarrow> GraphMetrics \<Rightarrow> GraphMetrics \<Rightarrow> real" where
  "calculate_confidence delta_obj baseline modified =
     (if delta_obj \<ge> 0 then 0
      else
        let improvement = - delta_obj;
            c0 = min (improvement * 2) (5 / 10);
            c1 = (if is_connected baseline then c0 + 2 / 10 else c0);
            path_reduction = average_path_length baseline - average_path_length modified;
            c2 = (if path_reduction > 1 / 10 then c1 + 2 / 10 else c1);
            betweenness_increase = max_betweenness modified - max_betweenness baseline;
            c3 = (if betweenness_increase > 1 / 10 then c2 - 1 / 10 else c2)
        in max 0 (min 1 c3))"

definition generate_rationale :: "real \<Rightarrow> real \<Rightarrow> real \<Rightarrow> reason list" where
  "generate_rationale delta_path delta_betweenness delta_weighted =
     (let reasons =
            (if delta_path < - (5 / 100) then [ReducesAveragePathLength (- delta_path)] else [])
            @ (if delta_betweenness < - (1 / 100) then [ReducesMaxBetweenness (- delta_betweenness)] else [])
            @ (if delta_weighted < - 1 then [ReducesWeightedPathLength (- delta_weighted)] else [])
      in if reasons = [] then [MinorOptimizationBenefit] else reasons)"

text \<open>The attributes \<open>_evaluate_candidate\<close> gives the trial edge.\<close>

definition shortcut_attrs :: "real \<Rightarrow> real \<Rightarrow> edge_attrs" where
  "shortcut_attrs latency rate =
     \<lparr>weight = Some latency, call_rate = Some rate, p50_latency = Some latency,
      p95_latency = Some (latency * 2), error_rate = Some 0, cost = Some 0,
      is_shortcut = Some True\<rparr>"

text \<open>
  \<open>_evaluate_candidate\<close>, second half: the deltas, the risk, the confidence and the
  score from the two measurements.  The result is \<open>Inr None\<close> for Python's \<open>None\<close>;
  the division that computes the score raises \<open>ZeroDivisionError\<close> on a zero
  denominator.
\<close>

definition score_candidate ::
  "ShortcutOptimizer \<Rightarrow> string \<Rightarrow> string \<Rightarrow> real
    \<Rightarrow> GraphMetrics \<times> (string \<times> NodeMetrics) list
    \<Rightarrow> GraphMetrics \<times> (string \<times> NodeMetrics) list
    \<Rightarrow> py_error + ShortcutCandidate option" where
  "score_candidate opt u v latency baseline modified =
     (case baseline of (baseline_metrics, baseline_node_metrics) \<Rightarrow>
      case modified of (modified_metrics, modified_node_metrics) \<Rightarrow>
        let baseline_obj = calculate_objective opt baseline_metrics;
            modified_obj = calculate_objective opt modified_metrics;
            delta_obj = modified_obj - baseline_obj;
            delta_path = average_path_length modified_metrics - average_path_length baseline_metrics;
            delta_betweenness = max_betweenness modified_metrics - max_betweenness baseline_metrics;
            delta_weighted =
              weighted_average_path_length modified_metrics
              - weighted_average_path_length baseline_metrics;
            risk = calculate_risk_score u v modified_node_metrics;
            conf = calculate_confidence delta_obj baseline_metrics modified_metrics
        in if delta_obj \<ge> 0 then Inr None
           else
             let improvement = - delta_obj
             in if risk + epsilon opt = 0 then Inl ZeroDivisionError
                else
                  Inr (Some
                    \<lparr>source = u, target = v, delta_objective = delta_obj,
                     delta_path_length = delta_path,
                     delta_max_betweenness = delta_betweenness,
                     delta_weighted_path_length = delta_weighted,
                     risk_score = risk, confidence = conf,
                     score = improvement / (risk + epsilon opt),
                     rationale = generate_rationale delta_path delta_betweenness delta_weighted,
                     estimated_latency = latency,
                     estimated_call_rate = 0\<rparr>))"

text \<open>
  \<open>_evaluate_candidate\<close>, first half: the baseline is measured on the optimizer's graph,
  the trial edge is added to a copy of it, and the copy is measured.
\<close>

definition evaluate_candidate ::
  "nx_lib \<Rightarrow> ShortcutOptimizer \<Rightarrow> string \<Rightarrow> string \<Rightarrow> PolicyConstraints \<Rightarrow> heap
    \<Rightarrow> (py_error + ShortcutCandidate option) \<times> heap" where
  "evaluate_candidate L opt u v policy h =
     (case calculate_all_of L (graph opt) h of (baseline, h0) \<Rightarrow>
      case graph_copy (graph opt) h0 of (modified_graph, h1) \<Rightarrow>
        let latency = estimate_shortcut_latency (deref h1 (graph opt));
            h2 = graph_add_edge modified_graph u v (shortcut_attrs latency 0) h1
        in case calculate_all_of L modified_graph h2 of (modified, h3) \<Rightarrow>
             (score_candidate opt u v latency baseline modified, h3))"

text \<open>
  The evaluation loop of \<open>find_shortcuts\<close>: a candidate is appended when it is not
  \<open>None\<close> and its score is positive; an exception ends the loop.
\<close>

fun evaluate_loop ::
  "nx_lib \<Rightarrow> ShortcutOptimizer \<Rightarrow> PolicyConstraints \<Rightarrow> (string \<times> string) list
    \<Rightarrow> ShortcutCandidate list \<Rightarrow> heap \<Rightarrow> (py_error + ShortcutCandidate list) \<times> heap" where
  "evaluate_loop L opt policy [] evaluated h = (Inr evaluated, h)"
| "evaluate_loop L opt policy ((u, v) # rest) evaluated h =
     (case evaluate_candidate L opt u v policy h of
        (Inl e, h') \<Rightarrow> (Inl e, h')
      | (Inr None, h') \<Rightarrow> evaluate_loop L opt policy rest evaluated h'
      | (Inr (Some c), h') \<Rightarrow>
          evaluate_loop L opt policy rest (if score c > 0 then evaluated @ [c] else evaluated) h')"

text \<open>
  \<open>xs.sort(key=lambda c: c.score, reverse=True)\<close> is stable: candidates of equal score
  keep their order.  \<open>xs[:k]\<close> counts a negative \<open>k\<close> from the end.
\<close>

definition sort_by_score :: "ShortcutCandidate list \<Rightarrow> ShortcutCandidate list" where
  "sort_by_score xs = sort_key (\<lambda>c. - score c) xs"

definition slice_to :: "'a list \<Rightarrow> int \<Rightarrow> 'a list" where
  "slice_to xs k = (if k \<ge> 0 then take (nat k) xs else take (length xs - nat (- k)) xs)"

text \<open>\<open>policy = policy or PolicyConstraints()\<close>.\<close>

definition effective_policy :: "PolicyConstraints option \<Rightarrow> PolicyConstraints" where
  "effective_policy policy_arg = (case policy_arg of None \<Rightarrow> default_policy | Some p \<Rightarrow> p)"

definition find_shortcuts ::
  "nx_lib \<Rightarrow> ShortcutOptimizer \<Rightarrow> int \<Rightarrow> PolicyConstraints option \<Rightarrow> heap
    \<Rightarrow> (py_error + ShortcutCandidate list) \<times> heap" where
  "find_shortcuts L opt k policy_arg h =
     (if number_of_nodes (deref h (graph opt)) < 2 then (Inr [], h)
      else
        let policy = effective_policy policy_arg;
            candidates = generate_candidates (deref h (graph opt)) policy
        in case evaluate_loop L opt policy candidates [] h of
             (Inl e, h') \<Rightarrow> (Inl e, h')
           | (Inr evaluated, h') \<Rightarrow> (Inr (slice_to (sort_by_score evaluated) k), h'))"

text \<open>\<open>simulate_shortcuts\<close>: the shortcuts are added to a copy, which is then measured.\<close>

definition apply_shortcut :: "nat \<Rightarrow> heap \<Rightarrow> ShortcutCandidate \<Rightarrow> heap" where
  "apply_shortcut r h c =
     graph_add_edge r (source c) (target c)
       (shortcut_attrs (estimated_latency c) (estimated_call_rate c)) h"

definition simulate_shortcuts ::
  "nx_lib \<Rightarrow> ShortcutOptimizer \<Rightarrow> ShortcutCandidate list \<Rightarrow> heap
    \<Rightarrow> (GraphMetrics \<times> (string \<times> NodeMetrics) list) \<times> heap" where
  "simulate_shortcuts L opt shortcuts h =
     (case graph_copy (graph opt) h of
        (simulated, h1) \<Rightarrow>
          calculate_all_of L simulated (foldl (apply_shortcut simulated) h1 shortcuts))"

section \<open>A reference instance of the library\<close>

text \<open>
  An executable instance of the library interface, following the definitions the
  networkx and numpy documentation give for the functions: distances are hop distances,
  components are classes of mutual reachability, betweenness counts shortest paths,
  clustering counts triangles of the undirected projection, the percentile interpolates
  linearly.  Two things are not reproduced: the order in which networkx enumerates
  components (here: by first node), and PageRank, whose power iteration with a tolerance
  is a floating-point computation; the instance reports its failure to converge, for
  which the calculator has a fallback.  Weighted distances assume non-negative weights.
\<close>

definition reaches :: "digraph \<Rightarrow> string \<Rightarrow> string \<Rightarrow> bool" where
  "reaches g u v = (hop_distance g u v \<noteq> None)"

definition mutually_reachable :: "digraph \<Rightarrow> string \<Rightarrow> string \<Rightarrow> bool" where
  "mutually_reachable g u v = (reaches g u v \<and> reaches g v u)"

fun components_loop ::
  "(string \<Rightarrow> string \<Rightarrow> bool) \<Rightarrow> string list \<Rightarrow> string list \<Rightarrow> string list list \<Rightarrow> string list list" where
  "components_loop rel all [] found = found"
| "components_loop rel all (u # rest) found =
     (if u \<in> set (concat found) then components_loop rel all rest found
      else components_loop rel all rest (found @ [filter (rel u) all]))"

definition ref_strong_components :: "digraph \<Rightarrow> string list list" where
  "ref_strong_components g = components_loop (mutually_reachable g) (nodes g) (nodes g) []"

definition ref_weak_components :: "digraph \<Rightarrow> string list list" where
  "ref_weak_components g = components_loop (reaches (to_undirected g)) (nodes g) (nodes g) []"

definition ref_is_strongly_connected :: "digraph \<Rightarrow> py_error + bool" where
  "ref_is_strongly_connected g =
     (if g = [] then Inl NetworkXPointlessConcept
      else Inr (length (ref_strong_components g) = 1))"

definition ref_is_weakly_connected :: "digraph \<Rightarrow> py_error + bool" where
  "ref_is_weakly_connected g =
     (if g = [] then Inl NetworkXPointlessConcept
      else Inr (length (ref_weak_components g) = 1))"

definition ref_single_source_shortest_path_length :: "digraph \<Rightarrow> string \<Rightarrow> (string \<times> int) list" where
  "ref_single_source_shortest_path_length g u =
     concat (map (\<lambda>v. case hop_distance g u v of None \<Rightarrow> [] | Some k \<Rightarrow> [(v, int k)]) (nodes g))"

definition ref_average_shortest_path_length :: "digraph \<Rightarrow> py_error + real" where
  "ref_average_shortest_path_length g =
     (if g = [] then Inl NetworkXPointlessConcept
      else if length g = 1 then Inr 0
      else if length (ref_strong_components g) \<noteq> 1 then Inl NetworkXError
      else
        Inr (real_of_int
               (sum_list (map (\<lambda>u. sum_list (map snd (ref_single_source_shortest_path_length g u)))
                            (nodes g)))
             / real (length g * (length g - 1))))"

definition ref_diameter :: "digraph \<Rightarrow> py_error + int" where
  "ref_diameter g =
     (if g = [] then Inl ValueError
      else if length (ref_strong_components g) \<noteq> 1 then Inl NetworkXError
      else
        Inr (foldl max 0
               (concat (map (\<lambda>u. map snd (ref_single_source_shortest_path_length g u)) (nodes g)))))"

text \<open>
  The number of shortest paths from \<open>u\<close> to \<open>v\<close> is the number of walks whose length is
  the hop distance; a shortest path from \<open>s\<close> to \<open>t\<close> passes through \<open>v\<close> when the
  distances add up.
\<close>

fun count_walks :: "digraph \<Rightarrow> nat \<Rightarrow> string \<Rightarrow> string \<Rightarrow> nat" where
  "count_walks g 0 u v = (if u = v then 1 else 0)"
| "count_walks g (Suc k) u v = sum_list (map (\<lambda>(w, d). count_walks g k w v) (succ_of g u))"

definition shortest_paths :: "digraph \<Rightarrow> string \<Rightarrow> string \<Rightarrow> nat" where
  "shortest_paths g u v =
     (case hop_distance g u v of None \<Rightarrow> 0 | Some k \<Rightarrow> count_walks g k u v)"

definition shortest_paths_through :: "digraph \<Rightarrow> string \<Rightarrow> string \<Rightarrow> string \<Rightarrow> nat" where
  "shortest_paths_through g s t v =
     (case (hop_distance g s v, hop_distance g v t, hop_distance g s t) of
        (Some a, Some b, Some c) \<Rightarrow>
          if a + b = c then shortest_paths g s v * shortest_paths g v t else 0
      | _ \<Rightarrow> 0)"

definition pair_dependency :: "digraph \<Rightarrow> string \<Rightarrow> string \<times> string \<Rightarrow> real" where
  "pair_dependency g v st =
     (case st of (s, t) \<Rightarrow>
        if s = v \<or> t = v \<or> s = t \<or> shortest_paths g s t = 0 then 0
        else real (shortest_paths_through g s t v) / real (shortest_paths g s t))"

definition ref_betweenness :: "digraph \<Rightarrow> string \<Rightarrow> real" where
  "ref_betweenness g v =
     (let n = length g;
          scale = (if n \<le> 2 then 1 else 1 / real ((n - 1) * (n - 2)))
      in sum_list (map (pair_dependency g v) (List.product (nodes g) (nodes g))) * scale)"

definition ref_betweenness_centrality :: "digraph \<Rightarrow> (string \<rightharpoonup> real)" where
  "ref_betweenness_centrality g = map_of (map (\<lambda>v. (v, ref_betweenness g v)) (nodes g))"

text \<open>Closeness uses the distances towards a node, with the Wasserman-Faust scaling.\<close>

definition ref_closeness :: "digraph \<Rightarrow> string \<Rightarrow> real" where
  "ref_closeness g u =
     (let sp = concat (map (\<lambda>v. case hop_distance g v u of None \<Rightarrow> [] | Some k \<Rightarrow> [k]) (nodes g));
          totsp = sum_list sp;
          len_G = length g
      in if totsp > 0 \<and> len_G > 1
         then (real (length sp - 1) / real totsp) * (real (length sp - 1) / real (len_G - 1))
         else 0)"

definition ref_closeness_centrality :: "digraph \<Rightarrow> (string \<rightharpoonup> real)" where
  "ref_closeness_centrality g = map_of (map (\<lambda>v. (v, ref_closeness g v)) (nodes g))"

text \<open>Clustering of an undirected graph (given as a symmetric graph value).\<close>

definition neighbours :: "digraph \<Rightarrow> string \<Rightarrow> string list" where
  "neighbours ug v = filter (\<lambda>w. w \<noteq> v) (map fst (succ_of ug v))"

definition ref_clustering_of :: "digraph \<Rightarrow> string \<Rightarrow> real" where
  "ref_clustering_of ug v =
     (let vs = neighbours ug v;
          ntriangles =
            sum_list (map (\<lambda>w. length (filter (\<lambda>x. x \<in> set (neighbours ug w)) vs)) vs);
          d = length vs
      in if ntriangles = 0 then 0 else real ntriangles / real (d * (d - 1)))"

definition ref_clustering :: "digraph \<Rightarrow> (string \<rightharpoonup> real)" where
  "ref_clustering ug = map_of (map (\<lambda>v. (v, ref_clustering_of ug v)) (nodes ug))"

definition ref_average_clustering :: "digraph \<Rightarrow> py_error + real" where
  "ref_average_clustering ug =
     (if ug = [] then Inl ZeroDivisionError
      else Inr (sum_list (map (ref_clustering_of ug) (nodes ug)) / real (length ug)))"

text \<open>Weighted distance: the least total weight of a walk of at most \<open>k\<close> edges.\<close>

definition edge_weight :: "edge_attrs \<Rightarrow> real" where
  "edge_weight d = (case weight d of None \<Rightarrow> 1 | Some w \<Rightarrow> w)"

definition opt_min :: "real option \<Rightarrow> real option \<Rightarrow> real option" where
  "opt_min a b =
     (case a of None \<Rightarrow> b | Some x \<Rightarrow> (case b of None \<Rightarrow> Some x | Some y \<Rightarrow> Some (min x y)))"

fun least_weight :: "digraph \<Rightarrow> nat \<Rightarrow> string \<Rightarrow> string \<Rightarrow> real option" where
  "least_weight g 0 u v = (if u = v then Some 0 else None)"
| "least_weight g (Suc k) u v =
     foldl opt_min (if u = v then Some 0 else None)
       (map (\<lambda>(w, d). map_option (\<lambda>x. edge_weight d + x) (least_weight g k w v)) (succ_of g u))"

definition ref_single_source_dijkstra_path_length :: "digraph \<Rightarrow> string \<Rightarrow> (string \<times> real) list" where
  "ref_single_source_dijkstra_path_length g u =
     concat (map (\<lambda>v. case least_weight g (length g - 1) u v of None \<Rightarrow> [] | Some x \<Rightarrow> [(v, x)])
               (nodes g))"

text \<open>\<open>numpy.percentile\<close> with its default linear interpolation.\<close>

definition ref_percentile :: "real list \<Rightarrow> real \<Rightarrow> real" where
  "ref_percentile xs q =
     (let s = sort xs;
          n = length s;
          idx = q / 100 * real (n - 1);
          lo = nat \<lfloor>idx\<rfloor>;
          hi = min (lo + 1) (n - 1);
          frac = idx - real lo
      in s ! lo + frac * (s ! hi - s ! lo))"

definition nx_ref :: nx_lib where
  "nx_ref =
     \<lparr>nx_betweenness_centrality = (\<lambda>g. Inr (ref_betweenness_centrality g)),
      nx_closeness_centrality = (\<lambda>g. Inr (ref_closeness_centrality g)),
      nx_clustering = (\<lambda>ug. Inr (ref_clustering ug)),
      nx_average_clustering = ref_average_clustering,
      nx_pagerank = (\<lambda>g d. Inl PowerIterationFailedConvergence),
      nx_is_weakly_connected = ref_is_weakly_connected,
      nx_strongly_connected_components = (\<lambda>g. Inr (ref_strong_components g)),
      nx_average_shortest_path_length = ref_average_shortest_path_length,
      nx_single_source_shortest_path_length = (\<lambda>g u. Inr (ref_single_source_shortest_path_length g u)),
      nx_single_source_dijkstra_path_length = (\<lambda>g u. Inr (ref_single_source_dijkstra_path_length g u)),
      nx_is_strongly_connected = ref_is_strongly_connected,
      nx_diameter = ref_diameter,
      nx_number_weakly_connected_components = (\<lambda>g. int (length (ref_weak_components g))),
      nx_number_strongly_connected_components = (\<lambda>g. int (length (ref_strong_components g))),
      np_percentile = ref_percentile\<rparr>"

section \<open>Library contracts\<close>

text \<open>
  Betweenness centrality is a sum of fractions of shortest paths, so no implementation
  returns a negative value; the risk bound of the optimizer depends on that.
\<close>

definition betweenness_nonneg :: "nx_lib \<Rightarrow> bool" where
  "betweenness_nonneg L =
     (\<forall>g m v x. nx_betweenness_centrality L g = Inr m \<longrightarrow> m v = Some x \<longrightarrow> 0 \<le> x)"

section \<open>Example topology\<close>

text \<open>
  A chain of three services \<open>a \<rightarrow> b \<rightarrow> c\<close> as the graph builder produces it: \<open>a\<close> and
  \<open>b\<close> are deployed in zone \<open>east\<close>, \<open>c\<close> has no zone (its \<open>zone\<close> attribute is
  \<open>None\<close>); both edges carry a latency of 10 ms and a cost of 5.
\<close>

definition service_attrs :: "zone_value \<Rightarrow> node_attrs" where
  "service_attrs z =
     \<lparr>replicas = Some 1, tags = Some [], criticality = Some ''medium'', zone = Some z\<rparr>"

definition call_attrs :: edge_attrs where
  "call_attrs =
     \<lparr>weight = Some 10, call_rate = Some 100, p50_latency = Some 10, p95_latency = Some 50,
      error_rate = Some 0, cost = Some 5, is_shortcut = None\<rparr>"

definition chain_graph :: digraph where
  "chain_graph =
     [\<lparr>node_name = ''a'', node_data = service_attrs (ZoneStr ''east''),
       node_succ = [(''b'', call_attrs)]\<rparr>,
      \<lparr>node_name = ''b'', node_data = service_attrs (ZoneStr ''east''),
       node_succ = [(''c'', call_attrs)]\<rparr>,
      \<lparr>node_name = ''c'', node_data = service_attrs ZoneNone, node_succ = []\<rparr>]"

definition chain_heap :: heap where
  "chain_heap = \<lparr>cells = (\<lambda>r. if r = 0 then Some chain_graph else None), next_ref = 1\<rparr>"

text \<open>
  The policies of the examples.  \<open>strict_policy\<close> requires the same zone and forbids
  the two pairs that are connected already; the others change one field of the default
  policy.
\<close>

definition strict_policy :: PolicyConstraints where
  "strict_policy =
     \<lparr>forbidden_pairs = [(''a'', ''b''), (''b'', ''c'')], allowed_zones = [],
      max_new_edges_per_service = 3, require_same_zone = True,
      min_path_length_to_shortcut = 2\<rparr>"

definition one_edge_policy :: PolicyConstraints where
  "one_edge_policy = default_policy\<lparr>max_new_edges_per_service := 1\<rparr>"

definition no_edge_policy :: PolicyConstraints where
  "no_edge_policy = default_policy\<lparr>max_new_edges_per_service := 0\<rparr>"

definition east_to_west_policy :: PolicyConstraints where
  "east_to_west_policy = default_policy\<lparr>allowed_zones := [(''east'', [''west''])]\<rparr>"

definition east_to_east_policy :: PolicyConstraints where
  "east_to_east_policy = default_policy\<lparr>allowed_zones := [(''east'', [''east''])]\<rparr>"

definition chain_plus_ac :: digraph where
  "chain_plus_ac = add_edge chain_graph ''a'' ''c'' (shortcut_attrs 8 0)"

definition chain_plus_ca :: digraph where
  "chain_plus_ca = add_edge chain_graph ''c'' ''a'' (shortcut_attrs 8 0)"

text \<open>The measurements of the three graphs under the reference library.\<close>

definition chain_node_metrics :: "(string \<times> NodeMetrics) list" where
  "chain_node_metrics =
     [(''a'',
       \<lparr>name = ''a'', in_degree_m = 0, out_degree_m = 1, total_degree = 1,
        betweenness_centrality = 0, closeness_centrality = 0, clustering_coefficient = 0,
        pagerank = 1 / 3, incoming_load = 0, outgoing_load = 100, is_hub = False,
        is_bottleneck = False, vulnerability_score = 1 / 250\<rparr>),
      (''b'',
       \<lparr>name = ''b'', in_degree_m = 1, out_degree_m = 1, total_degree = 2,
        betweenness_centrality = 1 / 2, closeness_centrality = 1 / 2, clustering_coefficient = 0,
        pagerank = 1 / 3, incoming_load = 100, outgoing_load = 100, is_hub = True,
        is_bottleneck = True, vulnerability_score = 77 / 250\<rparr>),
      (''c'',
       \<lparr>name = ''c'', in_degree_m = 1, out_degree_m = 0, total_degree = 1,
        betweenness_centrality = 0, closeness_centrality = 2 / 3, clustering_coefficient = 0,
        pagerank = 1 / 3, incoming_load = 100, outgoing_load = 0, is_hub = False,
        is_bottleneck = False, vulnerability_score = 1 / 250\<rparr>)]"

definition chain_graph_metrics :: GraphMetrics where
  "chain_graph_metrics =
     \<lparr>node_count = 3, edge_count = 2, density = 1 / 3, average_path_length = 4 / 3,
      weighted_average_path_length = 40 / 3, diameter = 0, average_clustering = 0,
      is_connected = True, strongly_connected_components = 3,
      weakly_connected_components = 1, max_betweenness = 1 / 2, total_load = 200,
      hub_count = 1, bottleneck_count = 1, small_world_coefficient = 0\<rparr>"

definition chain_plus_ac_node_metrics :: "(string \<times> NodeMetrics) list" where
  "chain_plus_ac_node_metrics =
     [(''a'',
       \<lparr>name = ''a'', in_degree_m = 0, out_degree_m = 2, total_degree = 2,
        betweenness_centrality = 0, closeness_centrality = 0, clustering_coefficient = 1,
        pagerank = 1 / 3, incoming_load = 0, outgoing_load = 100, is_hub = True,
        is_bottleneck = True, vulnerability_score = 1 / 250\<rparr>),
      (''b'',
       \<lparr>name = ''b'', in_degree_m = 1, out_degree_m = 1, total_degree = 2,
        betweenness_centrality = 0, closeness_centrality = 1 / 2, clustering_coefficient = 1,
        pagerank = 1 / 3, incoming_load = 100, outgoing_load = 100, is_hub = True,
        is_bottleneck = True, vulnerability_score = 1 / 125\<rparr>),
      (''c'',
       \<lparr>name = ''c'', in_degree_m = 2, out_degree_m = 0, total_degree = 2,
        betweenness_centrality = 0, closeness_centrality = 1, clustering_coefficient = 1,
        pagerank = 1 / 3, incoming_load = 100, outgoing_load = 0, is_hub = True,
        is_bottleneck = True, vulnerability_score = 1 / 250\<rparr>)]"

definition chain_plus_ac_graph_metrics :: GraphMetrics where
  "chain_plus_ac_graph_metrics =
     \<lparr>node_count = 3, edge_count = 3, density = 1 / 2, average_path_length = 1,
      weighted_average_path_length = 28 / 3, diameter = 0, average_clustering = 1,
      is_connected = True, strongly_connected_components = 3,
      weakly_connected_components = 1, max_betweenness = 0, total_load = 200,
      hub_count = 3, bottleneck_count = 3,
      small_world_coefficient = calculate_small_world_coefficient 1 1 3 3\<rparr>"

definition chain_plus_ca_node_metrics :: "(string \<times> NodeMetrics) list" where
  "chain_plus_ca_node_metrics =
     [(''a'',
       \<lparr>name = ''a'', in_degree_m = 1, out_degree_m = 1, total_degree = 2,
        betweenness_centrality = 1 / 2, closeness_centrality = 2 / 3, clustering_coefficient = 1,
        pagerank = 1 / 3, incoming_load = 0, outgoing_load = 100, is_hub = True,
        is_bottleneck = True, vulnerability_score = 38 / 125\<rparr>),
      (''b'',
       \<lparr>name = ''b'', in_degree_m = 1, out_degree_m = 1, total_degree = 2,
        betweenness_centrality = 1 / 2, closeness_centrality = 2 / 3, clustering_coefficient = 1,
        pagerank = 1 / 3, incoming_load = 100, outgoing_load = 100, is_hub = True,
        is_bottleneck = True, vulnerability_score = 77 / 250\<rparr>),
      (''c'',
       \<lparr>name = ''c'', in_degree_m = 1, out_degree_m = 1, total_degree = 2,
        betweenness_centrality = 1 / 2, closeness_centrality = 2 / 3, clustering_coefficient = 1,
        pagerank = 1 / 3, incoming_load = 100, outgoing_load = 0, is_hub = True,
        is_bottleneck = True, vulnerability_score = 38 / 125\<rparr>)]"

definition chain_plus_ca_graph_metrics :: GraphMetrics where
  "chain_plus_ca_graph_metrics =
     \<lparr>node_count = 3, edge_count = 3, density = 1 / 2, average_path_length = 3 / 2,
      weighted_average_path_length = 14, diameter = 2, average_clustering = 1,
      is_connected = True, strongly_connected_components = 1,
      weakly_connected_components = 1, max_betweenness = 1 / 2, total_load = 200,
      hub_count = 3, bottleneck_count = 3,
      small_world_coefficient = calculate_small_world_coefficient 1 (3 / 2) 3 3\<rparr>"

text \<open>The shortcut \<open>a \<rightarrow> c\<close> as the optimizer with default weights reports it.\<close>

definition chain_shortcut :: ShortcutCandidate where
  "chain_shortcut =
     \<lparr>source = ''a'', target = ''c'', delta_objective = - (5 / 6),
      delta_path_length = - (1 / 3), delta_max_betweenness = - (1 / 2),
      delta_weighted_path_length = - 4, risk_score = 3 / 5, confidence = 9 / 10,
      score = 250 / 183,
      rationale =
        [ReducesAveragePathLength (1 / 3), ReducesMaxBetweenness (1 / 2),
         ReducesWeightedPathLength 4],
      estimated_latency = 8, estimated_call_rate = 0\<rparr>"

text \<open>The node metrics as they are before hubs and bottlenecks are marked.\<close>

definition unmarked :: "(string \<times> NodeMetrics) list \<Rightarrow> (string \<times> NodeMetrics) list" where
  "unmarked nms =
     map (\<lambda>(k, nm). (k, nm\<lparr>is_hub := False, is_bottleneck := False, vulnerability_score := 0\<rparr>)) nms"

section \<open>Properties\<close>

subsection \<open>Candidate generation\<close>

lemma targets_loop_eq:
  "targets_loop g p u vs cs = cs @ map (Pair u) (filter (pair_retained g p u) vs)"
  by (induction vs arbitrary: cs) auto

lemma sources_loop_eq:
  "(\<And>u. u \<in> set us \<Longrightarrow> ec u = Some 0) \<Longrightarrow>
   sources_loop g p ec us cs =
     cs @ concat (map (\<lambda>u. if max_new_edges_per_service p \<le> 0 then []
                           else map (Pair u) (filter (pair_retained g p u) (nodes g))) us)"
proof (induction us arbitrary: cs)
  case Nil
  then show ?case by simp
next
  case (Cons u us)
  have "ec u = Some 0" using Cons.prems by simp
  moreover have "\<And>w. w \<in> set us \<Longrightarrow> ec w = Some 0" using Cons.prems by simp
  ultimately show ?case
    using Cons.IH by (simp add: targets_loop_eq)
qed

lemma edge_counts_zero:
  "u \<in> set ns \<Longrightarrow> map_of (map (\<lambda>n. (n, 0::int)) ns) u = Some 0"
  by (induction ns) auto

lemma generate_candidates_eq:
  "generate_candidates g p =
     concat (map (\<lambda>u. if max_new_edges_per_service p \<le> 0 then []
                      else map (Pair u) (filter (pair_retained g p u) (nodes g))) (nodes g))"
  unfolding generate_candidates_def
  by (subst sources_loop_eq) (simp_all add: edge_counts_zero)

lemma generate_candidates_iff:
  "(u, v) \<in> set (generate_candidates g p) \<longleftrightarrow>
     0 < max_new_edges_per_service p \<and> u \<in> set (nodes g) \<and> v \<in> set (nodes g)
     \<and> pair_retained g p u v"
  by (auto simp: generate_candidates_eq)

lemma generate_candidates_no_budget:
  "max_new_edges_per_service p \<le> 0 \<Longrightarrow> generate_candidates g p = []"
  by (simp add: generate_candidates_eq)

lemma pair_retained_iff:
  "pair_retained g p u v \<longleftrightarrow>
     u \<noteq> v \<and> \<not> has_edge g u v \<and> (u, v) \<notin> set (forbidden_pairs p)
     \<and> (v, u) \<notin> set (forbidden_pairs p) \<and> \<not> same_zone_skips g p u v
     \<and> \<not> allowed_zones_skips g p u v \<and> \<not> path_length_skips g p u v"
  by (simp add: pair_retained_def)

subsection \<open>Candidate evaluation\<close>

lemma score_candidate_SomeD:
  assumes "score_candidate opt u v lat b m = Inr (Some c)"
  shows "source c = u" "target c = v" "delta_objective c < 0"
    "risk_score c = calculate_risk_score u v (snd m)"
    "score c = (- delta_objective c) / (risk_score c + epsilon opt)"
    "risk_score c + epsilon opt \<noteq> 0"
  using assms
  by (auto simp: score_candidate_def Let_def field_simps split: prod.splits if_splits)

lemma evaluate_candidate_fst:
  "\<exists>lat b g'. fst (evaluate_candidate L opt u v p h)
      = score_candidate opt u v lat b (calculate_all L (new_calculator g'))"
  unfolding evaluate_candidate_def calculate_all_of_def graph_copy_def Let_def split_def fst_conv snd_conv
  by (intro exI) (rule refl)

lemma evaluate_candidate_value:
  assumes "cells h (graph opt) = Some g"
  shows "fst (evaluate_candidate L opt u v p h)
    = score_candidate opt u v (estimate_shortcut_latency g)
        (calculate_all L (new_calculator g))
        (calculate_all L
           (new_calculator (add_edge g u v (shortcut_attrs (estimate_shortcut_latency g) 0))))"
  using assms
  by (simp add: evaluate_candidate_def calculate_all_of_def graph_copy_def graph_add_edge_def
      deref_def Let_def)

lemma evaluate_candidate_frame:
  assumes "r < next_ref h"
  shows "cells (snd (evaluate_candidate L opt u v p h)) r = cells h r"
    and "next_ref h < next_ref (snd (evaluate_candidate L opt u v p h))"
  using assms
  by (simp_all add: evaluate_candidate_def calculate_all_of_def graph_copy_def graph_add_edge_def
      Let_def)

lemma evaluate_loop_sound:
  assumes "evaluate_loop L opt p cands acc h = (Inr res, h')" "c \<in> set res"
  shows "c \<in> set acc \<or>
    (0 < score c \<and> (\<exists>u v lat b g'. (u, v) \<in> set cands \<and>
        score_candidate opt u v lat b (calculate_all L (new_calculator g')) = Inr (Some c)))"
  using assms
proof (induction cands arbitrary: acc h)
  case Nil
  then show ?case by simp
next
  case (Cons uv cands)
  obtain u v where uv: "uv = (u, v)" by (cases uv)
  obtain r h1 where ev: "evaluate_candidate L opt u v p h = (r, h1)" by (cases "evaluate_candidate L opt u v p h")
  obtain lat b g' where sc: "r = score_candidate opt u v lat b (calculate_all L (new_calculator g'))"
    using evaluate_candidate_fst[of L opt u v p h] ev by auto
  show ?case
  proof (cases r)
    case (Inl e)
    then show ?thesis using Cons.prems ev uv by simp
  next
    case (Inr oc)
    show ?thesis
    proof (cases oc)
      case None
      then have "evaluate_loop L opt p cands acc h1 = (Inr res, h')"
        using Cons.prems ev uv Inr by simp
      from Cons.IH[OF this Cons.prems(2)] show ?thesis by (meson list.set_intros(2))
    next
      case (Some c')
      then have "evaluate_loop L opt p cands (if score c' > 0 then acc @ [c'] else acc) h1 = (Inr res, h')"
        using Cons.prems ev uv Inr by simp
      from Cons.IH[OF this Cons.prems(2)]
      show ?thesis
      proof (elim disjE)
        assume "c \<in> set (if 0 < score c' then acc @ [c'] else acc)"
        then consider "c \<in> set acc" | "c = c'" "0 < score c'" by (auto split: if_splits)
        then show ?thesis
        proof cases
          case 1
          then show ?thesis by simp
        next
          case 2
          have "(u, v) \<in> set (uv # cands)" using uv by simp
          moreover have "score_candidate opt u v lat b (calculate_all L (new_calculator g')) = Inr (Some c)"
            using sc Inr Some 2 by simp
          ultimately show ?thesis using 2 by blast
        qed
      next
        assume "0 < score c \<and> (\<exists>u v lat b g'. (u, v) \<in> set cands \<and>
          score_candidate opt u v lat b (calculate_all L (new_calculator g')) = Inr (Some c))"
        then show ?thesis by (meson list.set_intros(2))
      qed
    qed
  qed
qed

lemma set_slice_to: "set (slice_to xs k) \<subseteq> set xs"
  by (auto simp: slice_to_def dest: in_set_takeD)

lemma find_shortcuts_sound:
  assumes "fst (find_shortcuts L opt k pa h) = Inr cs" "c \<in> set cs"
  shows "0 < score c \<and> (\<exists>u v lat b g'.
           (u, v) \<in> set (generate_candidates (deref h (graph opt)) (effective_policy pa)) \<and>
           score_candidate opt u v lat b (calculate_all L (new_calculator g')) = Inr (Some c))"
proof (cases "number_of_nodes (deref h (graph opt)) < 2")
  case True
  then show ?thesis using assms by (simp add: find_shortcuts_def)
next
  case False
  let ?cands = "generate_candidates (deref h (graph opt)) (effective_policy pa)"
  obtain r h' where el: "evaluate_loop L opt (effective_policy pa) ?cands [] h = (r, h')"
    by (cases "evaluate_loop L opt (effective_policy pa) ?cands [] h")
  show ?thesis
  proof (cases r)
    case (Inl e)
    then show ?thesis using assms False el by (simp add: find_shortcuts_def Let_def)
  next
    case (Inr ev)
    then have "cs = slice_to (sort_by_score ev) k"
      using assms False el by (simp add: find_shortcuts_def Let_def)
    then have "c \<in> set ev"
      using assms(2) set_slice_to[of "sort_by_score ev" k] by (auto simp: sort_by_score_def)
    with evaluate_loop_sound[of L opt "effective_policy pa" ?cands "[]" h ev h' c] el Inr
    show ?thesis by simp
  qed
qed

subsection \<open>Risk\<close>

lemma calculate_risk_score_bounds:
  assumes "\<And>nm. map_of nms v = Some nm \<Longrightarrow> 0 \<le> betweenness_centrality nm"
  shows "1 / 10 \<le> calculate_risk_score u v nms \<and> calculate_risk_score u v nms \<le> 1"
proof -
  have "0 \<le> (case map_of nms v of None \<Rightarrow> (0::real)
      | Some target_metrics \<Rightarrow>
          (let r = 0 + betweenness_centrality target_metrics * (5 / 10)
           in if is_bottleneck target_metrics then r + 3 / 10 else r))"
    using assms by (auto simp: Let_def split: option.splits)
  then show ?thesis
    by (auto simp: calculate_risk_score_def Let_def split: option.splits)
qed

lemma const_dict_value: "const_dict g c v = Some x \<Longrightarrow> x = c"
  by (auto simp: const_dict_def dest!: map_of_SomeD)

lemma node_metrics_betweenness_nonneg:
  assumes "betweenness_nonneg L" and "(k, nm) \<in> set (calculate_node_metrics L g)"
  shows "0 \<le> betweenness_centrality nm"
proof -
  let ?b = "or_else (nx_betweenness_centrality L g) (const_dict g 0)"
  have "0 \<le> dict_get ?b w 0" for w
  proof (cases "nx_betweenness_centrality L g")
    case (Inl e)
    then show ?thesis
      by (auto simp: or_else_def dict_get_def split: option.splits dest: const_dict_value)
  next
    case (Inr m)
    then show ?thesis
      using assms(1) by (auto simp: or_else_def dict_get_def betweenness_nonneg_def split: option.splits)
  qed
  then show ?thesis
    using assms(2) by (auto simp: calculate_node_metrics_def Let_def)
qed

lemma mark_node_betweenness [simp]:
  "betweenness_centrality (mark_node a b nm) = betweenness_centrality nm"
  by (simp add: mark_node_def Let_def)

lemma calculate_all_betweenness_nonneg:
  assumes "betweenness_nonneg L" and "(k, nm) \<in> set (snd (calculate_all L mc))"
  shows "0 \<le> betweenness_centrality nm"
  using assms node_metrics_betweenness_nonneg[OF assms(1)]
  by (auto simp: calculate_all_def identify_hubs_and_bottlenecks_def Let_def split: if_splits)

lemma pair_dependency_nonneg: "0 \<le> pair_dependency g v st"
  by (cases st) (simp add: pair_dependency_def)

lemma ref_betweenness_nonneg: "0 \<le> ref_betweenness g v"
  unfolding ref_betweenness_def Let_def
  by (intro mult_nonneg_nonneg sum_list_nonneg) (auto simp: pair_dependency_nonneg)

lemma map_of_tabulate: "map_of (map (\<lambda>v. (v, f v)) ns) v = Some x \<Longrightarrow> x = f v"
  by (induction ns) (auto split: if_splits)

lemma nx_ref_betweenness_nonneg: "betweenness_nonneg nx_ref"
  by (auto simp: betweenness_nonneg_def nx_ref_def ref_betweenness_centrality_def
      ref_betweenness_nonneg dest!: map_of_tabulate)

lemma score_candidate_returns:
  assumes "\<And>nm. map_of (snd m) v = Some nm \<Longrightarrow> 0 \<le> betweenness_centrality nm"
    and "0 < epsilon opt"
  shows "\<exists>r. score_candidate opt u v lat b m = Inr r"
proof -
  have "1 / 10 \<le> calculate_risk_score u v (snd m)"
    using calculate_risk_score_bounds[OF assms(1)] by simp
  then have "calculate_risk_score u v (snd m) + epsilon opt \<noteq> 0" using assms(2) by linarith
  then show ?thesis
    by (auto simp: score_candidate_def Let_def split: prod.splits)
qed

lemma evaluate_candidate_returns:
  assumes "betweenness_nonneg L" and "0 < epsilon opt"
  shows "\<exists>r. fst (evaluate_candidate L opt u v p h) = Inr r"
proof -
  obtain lat b g' where
    "fst (evaluate_candidate L opt u v p h)
      = score_candidate opt u v lat b (calculate_all L (new_calculator g'))"
    using evaluate_candidate_fst by blast
  moreover have "\<And>nm. map_of (snd (calculate_all L (new_calculator g'))) v = Some nm
      \<Longrightarrow> 0 \<le> betweenness_centrality nm"
    using calculate_all_betweenness_nonneg[OF assms(1)] by (blast dest: map_of_SomeD)
  ultimately show ?thesis using score_candidate_returns[OF _ assms(2)] by metis
qed

lemma evaluate_loop_returns:
  assumes "betweenness_nonneg L" and "0 < epsilon opt"
  shows "\<exists>res. fst (evaluate_loop L opt p cands acc h) = Inr res"
proof (induction cands arbitrary: acc h)
  case Nil
  then show ?case by simp
next
  case (Cons uv cands)
  obtain u v where uv: "uv = (u, v)" by (cases uv)
  obtain r h1 where ev: "evaluate_candidate L opt u v p h = (Inr r, h1)"
    using evaluate_candidate_returns[OF assms, of u v p h]
    by (cases "evaluate_candidate L opt u v p h") auto
  show ?case
    using Cons.IH ev uv by (cases r) auto
qed

lemma find_shortcuts_returns:
  assumes "betweenness_nonneg L" and "0 < epsilon opt"
  shows "\<exists>cs. fst (find_shortcuts L opt k pa h) = Inr cs"
proof -
  obtain res where
    "fst (evaluate_loop L opt (effective_policy pa)
            (generate_candidates (deref h (graph opt)) (effective_policy pa)) [] h) = Inr res"
    using evaluate_loop_returns[OF assms] by blast
  then show ?thesis
    by (auto simp: find_shortcuts_def Let_def split: prod.splits sum.splits)
qed

subsection \<open>The example topology, measured\<close>

lemma chain_raw_node_metrics:
  "calculate_node_metrics nx_ref chain_graph = unmarked chain_node_metrics"
  by code_simp

lemma chain_measures:
  "calculate_average_path_length nx_ref chain_graph = 4 / 3"
  "calculate_weighted_average_path_length nx_ref chain_graph = 40 / 3"
  "calculate_diameter nx_ref chain_graph = 0"
  "nx_average_clustering nx_ref (to_undirected chain_graph) = Inr 0"
  "nx_number_weakly_connected_components nx_ref chain_graph = 1"
  "nx_number_strongly_connected_components nx_ref chain_graph = 3"
  "number_of_nodes chain_graph = 3"
  "number_of_edges chain_graph = 2"
  by code_simp+

lemma percentiles:
  "ref_percentile [1, 2, 1] 70 = 7 / 5"
  "ref_percentile [0, 1 / 2, 0] 80 = 3 / 10"
  "ref_percentile [2, 2, 2] 70 = 2"
  "ref_percentile [0, 0, 0] 80 = 0"
  "ref_percentile [1 / 2, 1 / 2, 1 / 2] 80 = 1 / 2"
  by code_simp+

lemma nx_ref_percentile: "np_percentile nx_ref xs q = ref_percentile xs q"
  by (simp add: nx_ref_def)

lemma small_world_no_clustering: "calculate_small_world_coefficient 0 pl n m = 0"
  by (simp add: calculate_small_world_coefficient_def Let_def)

lemma chain_calculate_all:
  "calculate_all nx_ref (new_calculator chain_graph) = (chain_graph_metrics, chain_node_metrics)"
  by (simp add: calculate_all_def new_calculator_def chain_raw_node_metrics chain_measures
      calculate_graph_metrics_def identify_hubs_and_bottlenecks_def Let_def or_else_def
      max_default_def unmarked_def chain_node_metrics_def chain_graph_metrics_def
      small_world_no_clustering nx_ref_percentile percentiles hub_test_def bottleneck_test_def
      mark_node_def calculate_vulnerability_def)

lemma chain_plus_ac_raw_node_metrics:
  "calculate_node_metrics nx_ref chain_plus_ac = unmarked chain_plus_ac_node_metrics"
  by code_simp

lemma chain_plus_ac_measures:
  "calculate_average_path_length nx_ref chain_plus_ac = 1"
  "calculate_weighted_average_path_length nx_ref chain_plus_ac = 28 / 3"
  "calculate_diameter nx_ref chain_plus_ac = 0"
  "nx_average_clustering nx_ref (to_undirected chain_plus_ac) = Inr 1"
  "nx_number_weakly_connected_components nx_ref chain_plus_ac = 1"
  "nx_number_strongly_connected_components nx_ref chain_plus_ac = 3"
  "number_of_nodes chain_plus_ac = 3"
  "number_of_edges chain_plus_ac = 3"
  by code_simp+

lemma chain_plus_ac_calculate_all:
  "calculate_all nx_ref (new_calculator chain_plus_ac)
     = (chain_plus_ac_graph_metrics, chain_plus_ac_node_metrics)"
  by (simp add: calculate_all_def new_calculator_def chain_plus_ac_raw_node_metrics
      chain_plus_ac_measures calculate_graph_metrics_def identify_hubs_and_bottlenecks_def
      Let_def or_else_def max_default_def unmarked_def chain_plus_ac_node_metrics_def
      chain_plus_ac_graph_metrics_def nx_ref_percentile percentiles hub_test_def
      bottleneck_test_def mark_node_def calculate_vulnerability_def)

lemma chain_plus_ca_raw_node_metrics:
  "calculate_node_metrics nx_ref chain_plus_ca = unmarked chain_plus_ca_node_metrics"
  by code_simp

lemma chain_plus_ca_measures:
  "calculate_average_path_length nx_ref chain_plus_ca = 3 / 2"
  "calculate_weighted_average_path_length nx_ref chain_plus_ca = 14"
  "calculate_diameter nx_ref chain_plus_ca = 2"
  "nx_average_clustering nx_ref (to_undirected chain_plus_ca) = Inr 1"
  "nx_number_weakly_connected_components nx_ref chain_plus_ca = 1"
  "nx_number_strongly_connected_components nx_ref chain_plus_ca = 1"
  "number_of_nodes chain_plus_ca = 3"
  "number_of_edges chain_plus_ca = 3"
  by code_simp+

lemma chain_plus_ca_calculate_all:
  "calculate_all nx_ref (new_calculator chain_plus_ca)
     = (chain_plus_ca_graph_metrics, chain_plus_ca_node_metrics)"
  by (simp add: calculate_all_def new_calculator_def chain_plus_ca_raw_node_metrics
      chain_plus_ca_measures calculate_graph_metrics_def identify_hubs_and_bottlenecks_def
      Let_def or_else_def max_default_def unmarked_def chain_plus_ca_node_metrics_def
      chain_plus_ca_graph_metrics_def nx_ref_percentile percentiles hub_test_def
      bottleneck_test_def mark_node_def calculate_vulnerability_def)

lemma chain_latency: "estimate_shortcut_latency chain_graph = 8"
  by code_simp

lemma chain_candidates:
  "generate_candidates chain_graph strict_policy = [(''a'', ''c''), (''c'', ''a'')]"
  "generate_candidates chain_graph one_edge_policy
     = [(''a'', ''c''), (''b'', ''a''), (''c'', ''a''), (''c'', ''b'')]"
  "generate_candidates chain_graph east_to_west_policy = [(''c'', ''a''), (''c'', ''b'')]"
  "generate_candidates chain_graph (east_to_west_policy\<lparr>allowed_zones := []\<rparr>)
     = [(''a'', ''c''), (''b'', ''a''), (''c'', ''a''), (''c'', ''b'')]"
  "generate_candidates chain_graph east_to_east_policy
     = [(''b'', ''a''), (''c'', ''a''), (''c'', ''b'')]"
  by code_simp+

lemma chain_zones:
  "get_zone chain_graph ''a'' = ZoneStr ''east''"
  "get_zone chain_graph ''b'' = ZoneStr ''east''"
  "get_zone chain_graph ''c'' = ZoneNone"
  by code_simp+

lemma chain_score_ac:
  "score_candidate (new_optimizer 0) ''a'' ''c'' 8
     (chain_graph_metrics, chain_node_metrics)
     (chain_plus_ac_graph_metrics, chain_plus_ac_node_metrics) = Inr (Some chain_shortcut)"
  by (simp add: score_candidate_def new_optimizer_def calculate_objective_def
      chain_graph_metrics_def chain_plus_ac_graph_metrics_def chain_node_metrics_def
      chain_plus_ac_node_metrics_def calculate_risk_score_def calculate_confidence_def
      generate_rationale_def chain_shortcut_def Let_def)

lemma chain_score_ca:
  "score_candidate (new_optimizer 0) ''c'' ''a'' 8
     (chain_graph_metrics, chain_node_metrics)
     (chain_plus_ca_graph_metrics, chain_plus_ca_node_metrics) = Inr None"
  by (simp add: score_candidate_def new_optimizer_def calculate_objective_def
      chain_graph_metrics_def chain_plus_ca_graph_metrics_def Let_def)

lemma chain_evaluate:
  assumes "cells h 0 = Some chain_graph"
  shows "fst (evaluate_candidate nx_ref (new_optimizer 0) ''a'' ''c'' p h) = Inr (Some chain_shortcut)"
    and "fst (evaluate_candidate nx_ref (new_optimizer 0) ''c'' ''a'' p h) = Inr None"
proof -
  have g: "cells h (graph (new_optimizer 0)) = Some chain_graph"
    using assms by (simp add: new_optimizer_def)
  show "fst (evaluate_candidate nx_ref (new_optimizer 0) ''a'' ''c'' p h) = Inr (Some chain_shortcut)"
    by (simp add: evaluate_candidate_value[OF g] chain_latency chain_calculate_all
        chain_plus_ac_def[symmetric] chain_plus_ac_calculate_all chain_score_ac)
  show "fst (evaluate_candidate nx_ref (new_optimizer 0) ''c'' ''a'' p h) = Inr None"
    by (simp add: evaluate_candidate_value[OF g] chain_latency chain_calculate_all
        chain_plus_ca_def[symmetric] chain_plus_ca_calculate_all chain_score_ca)
qed

lemma chain_find_shortcuts:
  "fst (find_shortcuts nx_ref (new_optimizer 0) 5 (Some strict_policy) chain_heap)
     = Inr [chain_shortcut]"
proof -
  let ?opt = "new_optimizer 0"
  have c0: "cells chain_heap 0 = Some chain_graph" "0 < next_ref chain_heap"
    by (simp_all add: chain_heap_def)
  obtain r1 h1 where e1: "evaluate_candidate nx_ref ?opt ''a'' ''c'' strict_policy chain_heap = (r1, h1)"
    by (cases "evaluate_candidate nx_ref ?opt ''a'' ''c'' strict_policy chain_heap")
  have r1: "r1 = Inr (Some chain_shortcut)"
    using chain_evaluate(1)[OF c0(1), of strict_policy] e1 by simp
  have c1: "cells h1 0 = Some chain_graph"
    using evaluate_candidate_frame(1)[OF c0(2), of nx_ref ?opt "''a''" "''c''" strict_policy] e1 c0(1)
    by simp
  obtain r2 h2 where e2: "evaluate_candidate nx_ref ?opt ''c'' ''a'' strict_policy h1 = (r2, h2)"
    by (cases "evaluate_candidate nx_ref ?opt ''c'' ''a'' strict_policy h1")
  have r2: "r2 = Inr None"
    using chain_evaluate(2)[OF c1, of strict_policy] e2 by simp
  have n: "number_of_nodes chain_graph = 3" by (simp add: chain_measures)
  have s: "0 < score chain_shortcut" by (simp add: chain_shortcut_def)
  have g0: "deref chain_heap (graph ?opt) = chain_graph"
    by (simp add: deref_def new_optimizer_def chain_heap_def)
  show ?thesis
    using n s
    by (simp add: find_shortcuts_def g0 effective_policy_def chain_candidates e1 r1 e2 r2
        sort_by_score_def slice_to_def Let_def)
qed

subsection \<open>The calculator on the store\<close>

lemma heap_extends_refl: "heap_extends h h"
  by (simp add: heap_extends_def)

lemma heap_extends_trans:
  "heap_extends h h1 \<Longrightarrow> heap_extends h1 h2 \<Longrightarrow> heap_extends h h2"
  by (auto simp: heap_extends_def)

lemma heap_extends_deref:
  assumes "heap_extends h h'" and "r < next_ref h"
  shows "deref h' r = deref h r" and "r < next_ref h'" and "cells h' r = cells h r"
  using assms by (auto simp: heap_extends_def deref_def)

lemma try_observe_eq:
  "try_observe f rf fallback rb h = (or_else (f (deref h rf)) (fallback (deref h rb)), h)"
  by (simp add: try_observe_def observe_def or_else_def split: sum.splits)

lemma graph_to_undirected_alloc:
  assumes "graph_to_undirected r h = (u, h')"
  shows "heap_extends h h'" and "deref h' u = to_undirected (deref h r)"
  using assms by (auto simp: graph_to_undirected_def heap_extends_def deref_def)

lemma graph_subgraph_alloc:
  assumes "graph_subgraph r ns h = (u, h')"
  shows "heap_extends h h'" and "deref h' u = subgraph (deref h r) ns"
  using assms by (auto simp: graph_subgraph_def heap_extends_def deref_def)

lemma calculate_node_metrics_st_eq:
  assumes "r < next_ref h"
  shows "fst (calculate_node_metrics_st L r h) = calculate_node_metrics L (deref h r)"
    and "heap_extends h (snd (calculate_node_metrics_st L r h))"
proof -
  obtain u h' where al: "graph_to_undirected r h = (u, h')"
    by (cases "graph_to_undirected r h")
  note a = graph_to_undirected_alloc[OF al]
  have d: "deref h' r = deref h r" using heap_extends_deref(1)[OF a(1) assms] .
  show "fst (calculate_node_metrics_st L r h) = calculate_node_metrics L (deref h r)"
    by (simp add: calculate_node_metrics_st_def calculate_node_metrics_def try_observe_eq
        observe_def al a(2) d Let_def)
  show "heap_extends h (snd (calculate_node_metrics_st L r h))"
    by (simp add: calculate_node_metrics_st_def try_observe_eq observe_def al a(1))
qed

lemma all_pairs_loop_st_eq:
  "all_pairs_loop_st L r us acc h = (all_pairs_loop L (deref h r) us acc, h)"
  by (induction us arbitrary: acc) (auto simp: observe_def split: sum.splits)

lemma weighted_pairs_loop_st_eq:
  "weighted_pairs_loop_st L r us acc h = (weighted_pairs_loop L (deref h r) us acc, h)"
  by (induction us arbitrary: acc) (auto simp: observe_def split: sum.splits py_error.splits)

lemma average_over_pairs_st_eq:
  "average_over_pairs_st L r h = (average_over_pairs L (deref h r), h)"
  by (simp add: average_over_pairs_st_def average_over_pairs_def observe_def
      all_pairs_loop_st_eq split: sum.splits prod.splits)

lemma largest_scc_st_eq:
  "largest_scc_st L r h = (largest_scc L (deref h r), h)"
  by (simp add: largest_scc_st_def largest_scc_def observe_def split: sum.splits option.splits)

lemma calculate_average_path_length_st_eq:
  shows "fst (calculate_average_path_length_st L r h) = calculate_average_path_length L (deref h r)"
    and "heap_extends h (snd (calculate_average_path_length_st L r h))"
proof -
  show "fst (calculate_average_path_length_st L r h) = calculate_average_path_length L (deref h r)"
    by (auto simp: calculate_average_path_length_st_def average_path_length_body_def
        calculate_average_path_length_def observe_def largest_scc_st_eq average_over_pairs_st_eq
        graph_subgraph_def deref_def
        split: sum.splits bool.splits prod.splits)
  show "heap_extends h (snd (calculate_average_path_length_st L r h))"
    by (auto simp: calculate_average_path_length_st_def average_path_length_body_def
        observe_def largest_scc_st_eq average_over_pairs_st_eq graph_subgraph_def
        heap_extends_def
        split: sum.splits bool.splits prod.splits)
qed

lemma calculate_weighted_average_path_length_st_eq:
  "calculate_weighted_average_path_length_st L r h
     = (calculate_weighted_average_path_length L (deref h r), h)"
  by (simp add: calculate_weighted_average_path_length_st_def
      calculate_weighted_average_path_length_def observe_def weighted_pairs_loop_st_eq
      or_else_def split: sum.splits prod.splits)

lemma calculate_diameter_st_eq:
  shows "fst (calculate_diameter_st L r h) = calculate_diameter L (deref h r)"
    and "heap_extends h (snd (calculate_diameter_st L r h))"
proof -
  show "fst (calculate_diameter_st L r h) = calculate_diameter L (deref h r)"
    by (auto simp: calculate_diameter_st_def diameter_body_def calculate_diameter_def
        observe_def largest_scc_st_eq graph_subgraph_def deref_def
        split: sum.splits bool.splits prod.splits)
  show "heap_extends h (snd (calculate_diameter_st L r h))"
    by (auto simp: calculate_diameter_st_def diameter_body_def observe_def largest_scc_st_eq
        graph_subgraph_def heap_extends_def
        split: sum.splits bool.splits prod.splits)
qed

lemma calculate_graph_metrics_st_eq:
  assumes "r < next_ref h"
  shows "fst (calculate_graph_metrics_st L r nms h) = calculate_graph_metrics L (deref h r) nms"
    and "heap_extends h (snd (calculate_graph_metrics_st L r nms h))"
proof -
  obtain a h2 where s2: "calculate_average_path_length_st L r h = (a, h2)"
    by (cases "calculate_average_path_length_st L r h")
  have a: "a = calculate_average_path_length L (deref h r)" and e2: "heap_extends h h2"
    using calculate_average_path_length_st_eq[where L = L and r = r and h = h] s2 by simp_all
  have r2: "deref h2 r = deref h r" "r < next_ref h2"
    using heap_extends_deref[OF e2 assms] by simp_all
  obtain d h4 where s4: "calculate_diameter_st L r h2 = (d, h4)"
    by (cases "calculate_diameter_st L r h2")
  have d: "d = calculate_diameter L (deref h r)" and e4: "heap_extends h2 h4"
    using calculate_diameter_st_eq[where L = L and r = r and h = h2] s4 r2(1) by simp_all
  have r4: "deref h4 r = deref h r" "r < next_ref h4"
    using heap_extends_deref[OF e4 r2(2)] r2(1) by simp_all
  obtain u h5 where s5: "graph_to_undirected r h4 = (u, h5)"
    by (cases "graph_to_undirected r h4")
  note al = graph_to_undirected_alloc[OF s5]
  have r5: "deref h5 r = deref h r" "deref h5 u = to_undirected (deref h r)"
    using heap_extends_deref(1)[OF al(1) r4(2)] r4(1) al(2) by simp_all
  have e5: "heap_extends h h5"
    using heap_extends_trans[OF heap_extends_trans[OF e2 e4] al(1)] .
  show "fst (calculate_graph_metrics_st L r nms h) = calculate_graph_metrics L (deref h r) nms"
    by (simp add: calculate_graph_metrics_st_def calculate_graph_metrics_def observe_def s2 a
        calculate_weighted_average_path_length_st_eq r2 s4 d s5 r5 Let_def)
  show "heap_extends h (snd (calculate_graph_metrics_st L r nms h))"
    by (simp add: calculate_graph_metrics_st_def observe_def s2
        calculate_weighted_average_path_length_st_eq s4 s5 e5 heap_extends_refl Let_def)
qed

lemma calculate_all_st_eq:
  assumes "r < next_ref h"
  shows "fst (calculate_all_st L r h) = calculate_all L (new_calculator (deref h r))"
    and "heap_extends h (snd (calculate_all_st L r h))"
proof -
  let ?nms = "calculate_node_metrics L (deref h r)"
  let ?gm = "calculate_graph_metrics L (deref h r) ?nms"
  obtain h1 where s1: "calculate_node_metrics_st L r h = (?nms, h1)"
    using calculate_node_metrics_st_eq(1)[OF assms, where L = L]
    by (cases "calculate_node_metrics_st L r h") simp
  have e1: "heap_extends h h1"
    using calculate_node_metrics_st_eq(2)[OF assms, where L = L] s1 by simp
  have r1: "deref h1 r = deref h r" "r < next_ref h1"
    using heap_extends_deref[OF e1 assms] by simp_all
  obtain h2 where s2: "calculate_graph_metrics_st L r ?nms h1 = (?gm, h2)"
    using calculate_graph_metrics_st_eq(1)[OF r1(2), where L = L and nms = ?nms] r1(1)
    by (cases "calculate_graph_metrics_st L r ?nms h1") simp
  have e2: "heap_extends h1 h2"
    using calculate_graph_metrics_st_eq(2)[OF r1(2), where L = L and nms = ?nms] s2 by simp
  have r2: "deref h2 r = deref h r"
    using heap_extends_deref(1)[OF e2 r1(2)] r1(1) by simp
  show "fst (calculate_all_st L r h) = calculate_all L (new_calculator (deref h r))"
    by (simp add: calculate_all_st_def calculate_all_def observe_def s1 s2 r2
        new_calculator_def Let_def)
  show "heap_extends h (snd (calculate_all_st L r h))"
    using heap_extends_trans[OF e1 e2]
    by (simp add: calculate_all_st_def observe_def s1 s2 heap_extends_refl)
qed

lemma calculate_all_st_allocates:
  assumes "r < next_ref h" and "number_of_nodes (deref h r) \<noteq> 0"
  shows "next_ref h < next_ref (snd (calculate_all_st L r h))"
proof -
  obtain nms h1 where s1: "calculate_node_metrics_st L r h = (nms, h1)"
    by (cases "calculate_node_metrics_st L r h")
  have "next_ref (snd (calculate_node_metrics_st L r h)) = Suc (next_ref h)"
    by (simp add: calculate_node_metrics_st_def try_observe_eq observe_def
        graph_to_undirected_def)
  then have n1: "next_ref h1 = Suc (next_ref h)"
    using s1 by simp
  have e1: "heap_extends h h1"
    using calculate_node_metrics_st_eq(2)[OF assms(1), where L = L] s1 by simp
  have r1: "r < next_ref h1" using heap_extends_deref(2)[OF e1 assms(1)] .
  have "heap_extends h1 (snd (calculate_graph_metrics_st L r nms h1))"
    using calculate_graph_metrics_st_eq(2)[OF r1] .
  then have "next_ref h1 \<le> next_ref (snd (calculate_graph_metrics_st L r nms h1))"
    by (simp add: heap_extends_def)
  then show ?thesis
    using assms(2) n1
    by (auto simp: calculate_all_st_def observe_def s1 split: prod.splits)
qed

section \<open>The claims\<close>

subsection \<open>C1: the objective\<close>

lemma calculate_objective_eq:
  "calculate_objective opt metrics
     = alpha opt * average_path_length metrics + beta opt * max_betweenness metrics"
  by (simp add: calculate_objective_def)

lemma chain_total_cost: "total_cost chain_graph = 10"
  by code_simp

text \<open>
  Claim C1 says that the objective the engine scores candidates with is
  \<open>alpha * average_path_length + beta * max_betweenness + gamma * (sum of edge costs)\<close>.
  The optimizer's \<open>_calculate_objective\<close> multiplies \<open>gamma\<close> by the constant 0, so
  the cost never enters: on the example chain, whose two edges cost 5 each, the optimizer
  with the default weights \<open>(1, 1, 0.1)\<close> computes 11/6, where the stated formula and
  \<open>MetricsCalculator.get_objective_value\<close> give 17/6.
\<close>

theorem engine_objective_ignores_cost:
  "calculate_objective (new_optimizer 0) (fst (calculate_all nx_ref (new_calculator chain_graph)))
     = 11 / 6
   \<and> alpha (new_optimizer 0) * average_path_length (fst (calculate_all nx_ref (new_calculator chain_graph)))
       + beta (new_optimizer 0) * max_betweenness (fst (calculate_all nx_ref (new_calculator chain_graph)))
       + gamma (new_optimizer 0) * total_cost chain_graph
     = 17 / 6
   \<and> get_objective_value nx_ref (new_calculator chain_graph) 1 1 (1 / 10) = 17 / 6"
proof -
  have "calc_graph (new_calculator chain_graph) = chain_graph"
    by (simp add: new_calculator_def)
  then have "get_objective_value nx_ref (new_calculator chain_graph) 1 1 (1 / 10) = 17 / 6"
    by (simp add: get_objective_value_def chain_calculate_all chain_total_cost
        chain_graph_metrics_def)
  then show ?thesis
    by (simp add: calculate_objective_eq chain_calculate_all chain_total_cost new_optimizer_def
        chain_graph_metrics_def)
qed

subsection \<open>C2: the per-source counter\<close>

lemma pair_retained_budget:
  "pair_retained g (p\<lparr>max_new_edges_per_service := c\<rparr>) u = pair_retained g p u"
proof (rule ext)
  fix v
  have "path_length_skips g (p\<lparr>max_new_edges_per_service := c\<rparr>) u v = path_length_skips g p u v"
    by (simp add: path_length_skips_def split: sum.splits)
  then show "pair_retained g (p\<lparr>max_new_edges_per_service := c\<rparr>) u v = pair_retained g p u v"
    by (simp add: pair_retained_iff same_zone_skips_def allowed_zones_skips_def)
qed

lemma generate_candidates_budget:
  "0 < max_new_edges_per_service p \<Longrightarrow> 0 < c \<Longrightarrow>
   generate_candidates g (p\<lparr>max_new_edges_per_service := c\<rparr>) = generate_candidates g p"
  by (simp add: generate_candidates_eq pair_retained_budget)

text \<open>
  Claim C2 says that no source appears in more than \<open>max_new_edges_per_service\<close>
  generated pairs, because a per-source counter is incremented with every accepted pair.
  The counter dictionary is created and read but never written, so any positive bound
  admits every pair: on the example chain with a bound of 1 the source \<open>c\<close> appears in
  two generated pairs.
\<close>

theorem generate_candidates_exceeds_budget:
  "max_new_edges_per_service one_edge_policy = 1
   \<and> generate_candidates chain_graph one_edge_policy
       = [(''a'', ''c''), (''b'', ''a''), (''c'', ''a''), (''c'', ''b'')]
   \<and> length (filter (\<lambda>(s, t). s = ''c'') (generate_candidates chain_graph one_edge_policy)) = 2"
  by (simp add: chain_candidates) (simp add: one_edge_policy_def)

subsection \<open>C3: only improvements are returned\<close>




subsection \<open>C4: the small-world coefficient\<close>

text \<open>
  The chain has three nodes, two edges and an average path length of 4/3, and its
  coefficient is 0, because its undirected projection has no triangle: the average
  clustering is 0.  So \<open>n < 3\<close>, \<open>path_length = 0\<close> and \<open>m = 0\<close> are not the only
  cases in which the coefficient is 0.
\<close>

theorem small_world_zero_on_chain:
  "small_world_coefficient (fst (calculate_all nx_ref (new_calculator chain_graph))) = 0
   \<and> node_count (fst (calculate_all nx_ref (new_calculator chain_graph))) = 3
   \<and> edge_count (fst (calculate_all nx_ref (new_calculator chain_graph))) = 2
   \<and> average_path_length (fst (calculate_all nx_ref (new_calculator chain_graph))) = 4 / 3
   \<and> average_clustering (fst (calculate_all nx_ref (new_calculator chain_graph))) = 0"
  by (simp add: chain_calculate_all chain_graph_metrics_def)

text \<open>
  Claim C4, amended: the small-world coefficient is 0 exactly when \<open>n < 3\<close>, or
  \<open>path_length = 0\<close>, or there is no edge, or the average clustering is 0.  In
  particular, for \<open>n \<ge> 3\<close>, \<open>path_length > 0\<close> and \<open>m > 0\<close> it is nonzero exactly when
  the clustering is.
\<close>

theorem small_world_zero_iff:
  "calculate_small_world_coefficient c pl n m = 0 \<longleftrightarrow> (n < 3 \<or> pl = 0 \<or> m \<le> 0 \<or> c = 0)"
proof (cases "pl = 0 \<or> n < 3")
  case True
  then show ?thesis by (auto simp: calculate_small_world_coefficient_def)
next
  case False
  then have n: "3 \<le> n" and pl: "pl \<noteq> 0" by auto
  have nn: "0 < real_of_int (n * (n - 1))" using n by simp
  let ?p = "real_of_int m / real_of_int (n * (n - 1))"
  let ?avg = "real_of_int (2 * m) / real_of_int n"
  let ?rpl = "if ?avg > 1 then ln (real_of_int n) / ln ?avg else real_of_int n / 2"
  have unfold: "calculate_small_world_coefficient c pl n m =
      (if ?p = 0 \<or> ?rpl = 0 then 0
       else (if ?p > 0 then c / ?p else 0) / (pl / ?rpl))"
    using n pl by (simp add: calculate_small_world_coefficient_def Let_def)
  have rpl: "?rpl > 0"
  proof (cases "?avg > 1")
    case True
    have "ln (real_of_int n) > 0" using n by simp
    moreover have "ln ?avg > 0" using True by simp
    ultimately show ?thesis using True by simp
  next
    case False
    then show ?thesis using n by simp
  qed
  consider "m = 0" | "m < 0" | "0 < m" by linarith
  then show ?thesis
  proof cases
    case 1
    then show ?thesis unfolding unfold by simp
  next
    case 2
    then have "?p < 0" using nn by (simp add: divide_neg_pos)
    then show ?thesis unfolding unfold using 2 by auto
  next
    case 3
    then have p: "?p > 0" using nn by simp
    have "calculate_small_world_coefficient c pl n m = (c / ?p) / (pl / ?rpl)"
      unfolding unfold using p rpl by auto
    moreover have "(c / ?p) / (pl / ?rpl) = 0 \<longleftrightarrow> c = 0"
      using p rpl pl by auto
    ultimately show ?thesis using 3 n pl by auto
  qed
qed


subsection \<open>C5: the zone allow-list\<close>

text \<open>
  Service \<open>a\<close> is in zone \<open>east\<close>, which the policy allows to connect to \<open>west\<close> only;
  service \<open>c\<close> has no zone.  The pair \<open>(a, c)\<close> is generated without the allow-list
  and is not generated with it: a target without a zone is rejected.
\<close>

theorem allowed_zones_rejects_unzoned_target:
  "allowed_zones east_to_west_policy \<noteq> []
   \<and> zone_is_key (get_zone chain_graph ''a'') (allowed_zones east_to_west_policy)
   \<and> get_zone chain_graph ''c'' = ZoneNone
   \<and> (''a'', ''c'') \<in> set (generate_candidates chain_graph (east_to_west_policy\<lparr>allowed_zones := []\<rparr>))
   \<and> (''a'', ''c'') \<notin> set (generate_candidates chain_graph east_to_west_policy)"
  by (simp add: chain_candidates chain_zones)
    (simp add: east_to_west_policy_def default_policy_def zone_is_key_def)

text \<open>
  Claim C5, amended: with a non-empty \<open>allowed_zones\<close> map in which the zone of \<open>u\<close> is
  a key, the pair \<open>(u, v)\<close> is generated exactly when it is generated without the map
  and the zone of \<open>v\<close> is a string in the list associated with the zone of \<open>u\<close>.  A
  target whose zone is \<open>None\<close> is rejected; one whose zone is absent or empty is read as
  the empty string and rejected unless the list contains the empty string.
\<close>

theorem allowed_zones_membership:
  assumes "allowed_zones p \<noteq> []"
    and "get_zone g u = ZoneStr zu"
    and "map_of (allowed_zones p) zu = Some zs"
  shows "(u, v) \<in> set (generate_candidates g p) \<longleftrightarrow>
           (u, v) \<in> set (generate_candidates g (p\<lparr>allowed_zones := []\<rparr>))
           \<and> (\<exists>zv. get_zone g v = ZoneStr zv \<and> zv \<in> set zs)"
proof -
  have skips: "allowed_zones_skips g p u v \<longleftrightarrow> \<not> (\<exists>zv. get_zone g v = ZoneStr zv \<and> zv \<in> set zs)"
    using assms
    by (auto simp: allowed_zones_skips_def zone_is_key_def zone_list_def zone_in_list_def
        split: zone_value.splits)
  have "same_zone_skips g (p\<lparr>allowed_zones := []\<rparr>) u v = same_zone_skips g p u v"
    by (simp add: same_zone_skips_def)
  moreover have "path_length_skips g (p\<lparr>allowed_zones := []\<rparr>) u v = path_length_skips g p u v"
    by (simp add: path_length_skips_def split: sum.splits)
  moreover have "\<not> allowed_zones_skips g (p\<lparr>allowed_zones := []\<rparr>) u v"
    by (simp add: allowed_zones_skips_def)
  ultimately have "pair_retained g p u v \<longleftrightarrow>
          pair_retained g (p\<lparr>allowed_zones := []\<rparr>) u v \<and> \<not> allowed_zones_skips g p u v"
    by (auto simp: pair_retained_iff)
  then show ?thesis
    using skips by (auto simp: generate_candidates_iff)
qed


theorem allowed_zones_membership_witness:
  "allowed_zones east_to_east_policy \<noteq> []
   \<and> get_zone chain_graph ''b'' = ZoneStr ''east''
   \<and> map_of (allowed_zones east_to_east_policy) ''east'' = Some [''east'']
   \<and> (''b'', ''a'') \<in> set (generate_candidates chain_graph east_to_east_policy)
   \<and> (''b'', ''a'') \<in> set (generate_candidates chain_graph (east_to_east_policy\<lparr>allowed_zones := []\<rparr>))
   \<and> get_zone chain_graph ''a'' = ZoneStr ''east''"
proof -
  have a: "allowed_zones east_to_east_policy \<noteq> []"
    and m: "map_of (allowed_zones east_to_east_policy) ''east'' = Some [''east'']"
    by (simp_all add: east_to_east_policy_def)
  have g: "(''b'', ''a'') \<in> set (generate_candidates chain_graph east_to_east_policy)"
    by (simp add: chain_candidates)
  show ?thesis
    using allowed_zones_membership[OF a chain_zones(2) m, of "''a''"] a m g chain_zones
    by simp
qed

subsection \<open>C6: returned candidates and the policy\<close>

text \<open>
  With \<open>require_same_zone\<close> set, the optimizer returns the shortcut from \<open>a\<close> (zone
  \<open>east\<close>) to \<open>c\<close>, which has no zone: the same-zone check only rejects a pair whose
  zones are both set and differ.
\<close>

theorem same_zone_admits_unzoned_target:
  "require_same_zone strict_policy
   \<and> fst (find_shortcuts nx_ref (new_optimizer 0) 5 (Some strict_policy) chain_heap)
       = Inr [chain_shortcut]
   \<and> source chain_shortcut = ''a'' \<and> target chain_shortcut = ''c''
   \<and> get_zone chain_graph ''a'' = ZoneStr ''east''
   \<and> get_zone chain_graph ''c'' = ZoneNone"
  by (simp add: chain_find_shortcuts chain_zones) (simp add: strict_policy_def chain_shortcut_def)

text \<open>
  Claim C6, amended: every candidate \<open>find_shortcuts\<close> returns is a pair that is not an
  edge of the input graph and is not in \<open>forbidden_pairs\<close> in either order; and when
  \<open>require_same_zone\<close> is set, its two zones are equal whenever both are set and
  non-empty (a pair with an empty or unset zone on either side passes).
\<close>

theorem find_shortcuts_respects_policy:
  assumes "fst (find_shortcuts L opt k pa h) = Inr cs" and "c \<in> set cs"
  shows "\<not> has_edge (deref h (graph opt)) (source c) (target c)
    \<and> (source c, target c) \<notin> set (forbidden_pairs (effective_policy pa))
    \<and> (target c, source c) \<notin> set (forbidden_pairs (effective_policy pa))
    \<and> (require_same_zone (effective_policy pa) \<longrightarrow>
          truthy (get_zone (deref h (graph opt)) (source c)) \<longrightarrow>
          truthy (get_zone (deref h (graph opt)) (target c)) \<longrightarrow>
          get_zone (deref h (graph opt)) (source c) = get_zone (deref h (graph opt)) (target c))"
proof -
  obtain u v lat b g' where
    gen: "(u, v) \<in> set (generate_candidates (deref h (graph opt)) (effective_policy pa))"
    and sc: "score_candidate opt u v lat b (calculate_all L (new_calculator g')) = Inr (Some c)"
    using find_shortcuts_sound[OF assms] by blast
  have st: "source c = u" "target c = v"
    using score_candidate_SomeD(1,2)[OF sc] by simp_all
  have "pair_retained (deref h (graph opt)) (effective_policy pa) u v"
    using gen by (simp add: generate_candidates_iff)
  then show ?thesis
    unfolding st by (auto simp: pair_retained_iff same_zone_skips_def)
qed


theorem find_shortcuts_respects_policy_witness:
  "fst (find_shortcuts nx_ref (new_optimizer 0) 5 (Some strict_policy) chain_heap)
     = Inr [chain_shortcut]
   \<and> \<not> has_edge chain_graph ''a'' ''c''
   \<and> (''a'', ''c'') \<notin> set (forbidden_pairs strict_policy)
   \<and> (''c'', ''a'') \<notin> set (forbidden_pairs strict_policy)
   \<and> \<not> truthy (get_zone chain_graph ''c'')"
proof -
  have g0: "deref chain_heap (graph (new_optimizer 0)) = chain_graph"
    by (simp add: deref_def new_optimizer_def chain_heap_def)
  have "\<not> truthy (get_zone chain_graph ''c'')"
    by (simp add: chain_zones truthy_def)
  then show ?thesis
    using find_shortcuts_respects_policy[OF chain_find_shortcuts, of chain_shortcut]
      chain_find_shortcuts
    by (simp add: g0 effective_policy_def chain_shortcut_def)
qed

subsection \<open>C7: a budget of zero\<close>

text \<open>
  Claim C7: for every graph and every \<open>k\<close>, a policy with
  \<open>max_new_edges_per_service = 0\<close> makes \<open>find_shortcuts\<close> return the empty list.
\<close>

theorem find_shortcuts_zero_budget:
  "max_new_edges_per_service p = 0 \<Longrightarrow> fst (find_shortcuts L opt k (Some p) h) = Inr []"
  by (simp add: find_shortcuts_def effective_policy_def generate_candidates_no_budget
      sort_by_score_def slice_to_def)


theorem find_shortcuts_zero_budget_witness:
  "max_new_edges_per_service no_edge_policy = 0
   \<and> fst (find_shortcuts nx_ref (new_optimizer 0) 10 (Some no_edge_policy) chain_heap) = Inr []"
proof -
  have z: "max_new_edges_per_service no_edge_policy = 0"
    by (simp add: no_edge_policy_def)
  show ?thesis
    using find_shortcuts_zero_budget[OF z, of nx_ref "new_optimizer 0" 10 chain_heap] z by simp
qed

subsection \<open>C8: simulating no shortcut\<close>

text \<open>
  Claim C8: \<open>simulate_shortcuts\<close> applied to the empty list returns the same pair of
  graph metrics and node metrics as \<open>calculate_all\<close> on the optimizer's graph.
\<close>

theorem simulate_no_shortcuts:
  "fst (simulate_shortcuts L opt [] h) = fst (calculate_all_of L (graph opt) h)"
  by (simp add: simulate_shortcuts_def graph_copy_def calculate_all_of_def deref_def)


theorem simulate_no_shortcuts_witness:
  "fst (simulate_shortcuts nx_ref (new_optimizer 0) [] chain_heap)
     = (chain_graph_metrics, chain_node_metrics)"
  using simulate_no_shortcuts[of nx_ref "new_optimizer 0" chain_heap]
  by (simp add: calculate_all_of_def deref_def new_optimizer_def chain_heap_def chain_calculate_all)

subsection \<open>C9: the input graph is not modified\<close>

text \<open>
  Claim C9: \<open>calculate_all\<close> leaves the graph it measures unchanged, and the evaluation
  of a candidate leaves the optimizer's graph unchanged.  The calculator, followed
  operation by operation on the store, allocates the undirected projections and the
  subgraphs it measures, and every graph object that existed before the call, the
  measured one among them, has the same value afterwards; its result is the one the
  optimizer works with.  The evaluation of a candidate adds the trial edge to the copy,
  which is a new object.
\<close>

theorem evaluation_leaves_graph_unchanged:
  assumes "graph opt < next_ref h"
  shows "(\<forall>r. r < next_ref h \<longrightarrow> cells (snd (calculate_all_st L (graph opt) h)) r = cells h r)
    \<and> fst (calculate_all_st L (graph opt) h) = fst (calculate_all_of L (graph opt) h)
    \<and> cells (snd (evaluate_candidate L opt u v p h)) (graph opt) = cells h (graph opt)
    \<and> cells (snd (evaluate_candidate L opt u v p h)) (next_ref h)
        = map_option (\<lambda>g. add_edge g u v (shortcut_attrs (estimate_shortcut_latency g) 0))
            (cells h (graph opt))"
proof -
  have "heap_extends h (snd (calculate_all_st L (graph opt) h))"
    using calculate_all_st_eq(2)[OF assms] .
  then have frame: "\<forall>r. r < next_ref h \<longrightarrow> cells (snd (calculate_all_st L (graph opt) h)) r = cells h r"
    by (simp add: heap_extends_def)
  have result: "fst (calculate_all_st L (graph opt) h) = fst (calculate_all_of L (graph opt) h)"
    using calculate_all_st_eq(1)[OF assms] by (simp add: calculate_all_of_def)
  have "cells (snd (evaluate_candidate L opt u v p h)) (graph opt) = cells h (graph opt)
    \<and> cells (snd (evaluate_candidate L opt u v p h)) (next_ref h)
        = map_option (\<lambda>g. add_edge g u v (shortcut_attrs (estimate_shortcut_latency g) 0))
            (cells h (graph opt))"
    using assms
    by (cases "cells h (graph opt)")
      (auto simp: evaluate_candidate_def calculate_all_of_def graph_copy_def graph_add_edge_def
        deref_def Let_def split: prod.splits)
  with frame result show ?thesis by blast
qed

theorem evaluation_leaves_graph_unchanged_witness:
  "graph (new_optimizer 0) < next_ref chain_heap
   \<and> cells (snd (calculate_all_st nx_ref 0 chain_heap)) 0 = Some chain_graph
   \<and> next_ref chain_heap < next_ref (snd (calculate_all_st nx_ref 0 chain_heap))
   \<and> fst (calculate_all_st nx_ref 0 chain_heap) = (chain_graph_metrics, chain_node_metrics)
   \<and> cells (snd (evaluate_candidate nx_ref (new_optimizer 0) ''a'' ''c'' strict_policy chain_heap)) 0
       = Some chain_graph
   \<and> cells (snd (evaluate_candidate nx_ref (new_optimizer 0) ''a'' ''c'' strict_policy chain_heap)) 1
       = Some chain_plus_ac"
proof -
  have a: "graph (new_optimizer 0) < next_ref chain_heap"
    by (simp add: new_optimizer_def chain_heap_def)
  have g: "graph (new_optimizer 0) = 0" "next_ref chain_heap = 1"
    "cells chain_heap 0 = Some chain_graph" "deref chain_heap 0 = chain_graph"
    by (simp_all add: new_optimizer_def chain_heap_def deref_def)
  have n: "number_of_nodes (deref chain_heap 0) \<noteq> 0"
    by (simp add: g chain_measures)
  have grows: "next_ref chain_heap < next_ref (snd (calculate_all_st nx_ref 0 chain_heap))"
    using calculate_all_st_allocates[of 0 chain_heap nx_ref] n by (simp add: g)
  show ?thesis
    using evaluation_leaves_graph_unchanged[OF a, of nx_ref "''a''" "''c''" strict_policy] a grows
    by (simp add: g calculate_all_of_def chain_calculate_all chain_latency chain_plus_ac_def)
qed

subsection \<open>C10: the risk score and the score\<close>

text \<open>
  Claim C10: every candidate \<open>find_shortcuts\<close> returns has a risk score between 0.1 and
  1, and its score is at most its improvement divided by 0.11.  The lower bound needs
  the library's betweenness values to be non-negative, and the bound on the score is for
  the optimizer's \<open>epsilon\<close> of 0.01.
\<close>

theorem find_shortcuts_risk_bounds:
  assumes "betweenness_nonneg L" and "epsilon opt = 1 / 100"
    and "fst (find_shortcuts L opt k pa h) = Inr cs" and "c \<in> set cs"
  shows "1 / 10 \<le> risk_score c \<and> risk_score c \<le> 1
    \<and> score c \<le> (- delta_objective c) / (11 / 100)"
proof -
  obtain u v lat b g' where
    sc: "score_candidate opt u v lat b (calculate_all L (new_calculator g')) = Inr (Some c)"
    using find_shortcuts_sound[OF assms(3,4)] by blast
  note d = score_candidate_SomeD[OF sc]
  have nn: "\<And>nm. map_of (snd (calculate_all L (new_calculator g'))) v = Some nm
      \<Longrightarrow> 0 \<le> betweenness_centrality nm"
    using calculate_all_betweenness_nonneg[OF assms(1)] by (blast dest: map_of_SomeD)
  have risk: "1 / 10 \<le> risk_score c" "risk_score c \<le> 1"
    using calculate_risk_score_bounds[of "snd (calculate_all L (new_calculator g'))" v u, OF nn] d(4)
    by simp_all
  have imp: "0 < - delta_objective c" using d(3) by simp
  have den: "11 / 100 \<le> risk_score c + epsilon opt" using risk(1) assms(2) by simp
  have "(- delta_objective c) / (risk_score c + epsilon opt) \<le> (- delta_objective c) / (11 / 100)"
    using imp den by (intro divide_left_mono) (auto intro!: mult_pos_pos)
  then show ?thesis using risk d(5) by simp
qed


theorem find_shortcuts_risk_bounds_witness:
  "betweenness_nonneg nx_ref \<and> epsilon (new_optimizer 0) = 1 / 100
   \<and> fst (find_shortcuts nx_ref (new_optimizer 0) 5 (Some strict_policy) chain_heap)
       = Inr [chain_shortcut]
   \<and> 1 / 10 \<le> risk_score chain_shortcut \<and> risk_score chain_shortcut \<le> 1
   \<and> score chain_shortcut \<le> (- delta_objective chain_shortcut) / (11 / 100)"
proof -
  have e: "epsilon (new_optimizer 0) = 1 / 100"
    by (simp add: new_optimizer_def)
  show ?thesis
    using find_shortcuts_risk_bounds[OF nx_ref_betweenness_nonneg e chain_find_shortcuts,
        of chain_shortcut]
      nx_ref_betweenness_nonneg e chain_find_shortcuts
    by simp
qed

end
